theory Spec2Isabelle
  imports Main "HOL-Library.Word"
begin

section \<open>Credential manager (cred/manager.go)\<close>

text \<open>
  The managed server of package \<open>cred\<close> keeps, per server, the cached content of the
  credential file, a map from usernames to cached credentials and a map from identity
  hashes to cipher configurations, and it patches the lookup maps of the TCP and UDP
  credential stores it is attached to. The model passes the server state explicitly.
  Every exported operation either returns (a Go \<open>error\<close> value, \<open>None\<close> for \<open>nil\<close>,
  together with the state it leaves behind) or never returns because it blocks on the
  server's mutex; the latter is the result \<open>None\<close> of the operation.
\<close>

type_synonym byte = "8 word"

datatype error =
    ErrEmptyUsername
  | ErrNonexistentUser string
  | PSKLengthError "byte list" int
  | ErrUserExists string
  | ErrSameUPSK string
  | ErrDuplicateUPSK string string
  | ErrExternal string

text \<open>
  \<open>ErrNonexistentUser u\<close> is \<open>fmt.Errorf("%w: %s", ErrNonexistentUser, username)\<close>,
  \<open>PSKLengthError psk n\<close> is \<open>&ss2022.PSKLengthError{PSK: psk, ExpectedLength: n}\<close>,
  \<open>ErrUserExists u\<close> is \<open>"user %s already exists"\<close>, \<open>ErrSameUPSK u\<close> is
  \<open>"user %s already has the same uPSK"\<close>, \<open>ErrDuplicateUPSK a b\<close> is
  \<open>"duplicate uPSK for user %s and %s"\<close>, and \<open>ErrExternal\<close> stands for an error handed
  up from a collaborator (reading the file, decoding JSON, deriving a cipher configuration).
\<close>

record UserCredential =
  Name :: string
  UPSK :: "byte list"

record 'h cachedUserCredential =
  uPSK :: "byte list"
  uPSKHash :: 'h

text \<open>
  \<open>sync.RWMutex\<close>: a writer flag and a count of readers. \<open>Lock\<close> and \<open>RLock\<close> give
  \<open>None\<close> when the caller has to wait; in a sequence of calls made one after the other
  nobody is left to release the mutex, so the caller waits forever. \<open>Unlock\<close> and
  \<open>RUnlock\<close> of a mutex that is not held are fatal runtime errors, \<open>None\<close> as well.
\<close>

datatype rwmutex = RW (writer: bool) (readers: nat)

definition unlocked :: rwmutex where
  "unlocked = RW False 0"

fun Lock :: "rwmutex \<Rightarrow> rwmutex option" where
  "Lock (RW w r) = (if \<not> w \<and> r = 0 then Some (RW True 0) else None)"

fun Unlock :: "rwmutex \<Rightarrow> rwmutex option" where
  "Unlock (RW w r) = (if w then Some (RW False r) else None)"

fun RLock :: "rwmutex \<Rightarrow> rwmutex option" where
  "RLock (RW w r) = (if w then None else Some (RW False (Suc r)))"

fun RUnlock :: "rwmutex \<Rightarrow> rwmutex option" where
  "RUnlock (RW w r) = (case r of 0 \<Rightarrow> None | Suc r' \<Rightarrow> Some (RW w r'))"

text \<open>
  A credential store (\<open>ss2022.CredStore\<close>) holds the user lookup map \<open>ulm\<close>; the fields
  \<open>tcp\<close> and \<open>udp\<close> of the server are \<open>None\<close> for a nil pointer. \<open>saveQueue\<close> is the number
  of tokens in the channel of capacity 1. The maps \<open>cachedCredMap\<close> and
  \<open>cachedUserLookupMap\<close> are taken as allocated (the load that registers a server
  allocates them).
\<close>

record ('h, 'c) CredStore =
  ulm :: "'h \<rightharpoonup> 'c"

record ('h, 'c) ManagedServer =
  pskLength :: int
  tcp :: "('h, 'c) CredStore option"
  udp :: "('h, 'c) CredStore option"
  path :: string
  cachedContent :: string
  cachedCredMap :: "string \<rightharpoonup> 'h cachedUserCredential"
  cachedUserLookupMap :: "'h \<rightharpoonup> 'c"
  mu :: rwmutex
  saveQueue :: nat

text \<open>
  The collaborators whose code is in other packages are parameters: the identity hash
  \<open>ss2022.PSKHash\<close>, the constructor \<open>ss2022.NewServerUserCipherConfig\<close> with the \<open>Name\<close>
  field of its result, the file system as seen by \<open>mmap.ReadFile\<close>, and the JSON decoder
  with unknown fields disallowed. \<open>Decode\<close> delivers the decoded \<open>map[string][]byte\<close> as
  the list of its entries in the order in which \<open>range\<close> visits them.
\<close>

record ('h, 'c) collaborators =
  PSKHash :: "byte list \<Rightarrow> 'h"
  NewServerUserCipherConfig :: "string \<Rightarrow> byte list \<Rightarrow> bool \<Rightarrow> error + 'c"
  cfgName :: "'c \<Rightarrow> string"
  ReadFile :: "string \<Rightarrow> error + string"
  Decode :: "string \<Rightarrow> error + (string \<times> byte list) list"

text \<open>
  Modelled from the spec: \<open>CredStore.UpdateUserLookupMap\<close> and
  \<open>CredStore.ReplaceUserLookupMap\<close> of package \<open>ss2022\<close>, which are not among the sources.
  The first invokes the function on the current map under the writer lock of the store,
  the second swaps the map for the new one.
\<close>

definition UpdateUserLookupMap ::
  "(('h \<rightharpoonup> 'c) \<Rightarrow> ('h \<rightharpoonup> 'c)) \<Rightarrow> ('h, 'c) CredStore \<Rightarrow> ('h, 'c) CredStore" where
  "UpdateUserLookupMap f store = store\<lparr>ulm := f (ulm store)\<rparr>"

definition ReplaceUserLookupMap ::
  "('h \<rightharpoonup> 'c) \<Rightarrow> ('h, 'c) CredStore \<Rightarrow> ('h, 'c) CredStore" where
  "ReplaceUserLookupMap new store = store\<lparr>ulm := new\<rparr>"

definition GetCredential ::
  "string \<Rightarrow> ('h, 'c) ManagedServer \<Rightarrow> ((UserCredential \<times> bool) \<times> ('h, 'c) ManagedServer) option" where
  "GetCredential username s =
     (case RLock (mu s) of
        None \<Rightarrow> None
      | Some m \<Rightarrow>
          (let cachedCred = cachedCredMap s username in
           case RUnlock m of
             None \<Rightarrow> None
           | Some m' \<Rightarrow>
               (let s' = s\<lparr>mu := m'\<rparr> in
                case cachedCred of
                  None \<Rightarrow> Some ((\<lparr>Name = [], UPSK = []\<rparr>, False), s')
                | Some c \<Rightarrow> Some ((\<lparr>Name = username, UPSK = uPSK c\<rparr>, True), s'))))"

definition enqueueSave :: "('h, 'c) ManagedServer \<Rightarrow> ('h, 'c) ManagedServer" where
  "enqueueSave s = (if saveQueue s < 1 then s\<lparr>saveQueue := saveQueue s + 1\<rparr> else s)"

definition updateProdULM ::
  "(('h \<rightharpoonup> 'c) \<Rightarrow> ('h \<rightharpoonup> 'c)) \<Rightarrow> ('h, 'c) ManagedServer \<Rightarrow> ('h, 'c) ManagedServer" where
  "updateProdULM f s =
     (let s1 = (case tcp s of None \<Rightarrow> s
                | Some store \<Rightarrow> s\<lparr>tcp := Some (UpdateUserLookupMap f store)\<rparr>)
      in (case udp s1 of None \<Rightarrow> s1
          | Some store \<Rightarrow> s1\<lparr>udp := Some (UpdateUserLookupMap f store)\<rparr>))"

text \<open>
  \<open>AddCredential\<close>, \<open>UpdateCredential\<close> and \<open>DeleteCredential\<close> take the writer lock and
  release it on each of their paths before they return or go on to \<open>enqueueSave\<close> and
  \<open>updateProdULM\<close>; \<open>m'\<close> is the mutex after that release.
\<close>

definition AddCredential ::
  "('h, 'c) collaborators \<Rightarrow> string \<Rightarrow> byte list \<Rightarrow> ('h, 'c) ManagedServer
     \<Rightarrow> (error option \<times> ('h, 'c) ManagedServer) option" where
  "AddCredential E username k s =
     (if username = [] then Some (Some ErrEmptyUsername, s)
      else if int (length k) \<noteq> pskLength s then Some (Some (PSKLengthError k (pskLength s)), s)
      else
        (case Lock (mu s) of
           None \<Rightarrow> None
         | Some m \<Rightarrow>
             (case Unlock m of
                None \<Rightarrow> None
              | Some m' \<Rightarrow>
                  (if cachedCredMap s username \<noteq> None
                   then Some (Some (ErrUserExists username), s\<lparr>mu := m'\<rparr>)
                   else
                     (case NewServerUserCipherConfig E username k (udp s \<noteq> None) of
                        Inl err \<Rightarrow> Some (Some err, s\<lparr>mu := m'\<rparr>)
                      | Inr c \<Rightarrow>
                          (let uc = \<lparr>uPSK = k, uPSKHash = PSKHash E k\<rparr>;
                               s1 = s\<lparr>cachedCredMap := (cachedCredMap s)(username \<mapsto> uc),
                                      cachedUserLookupMap := (cachedUserLookupMap s)(uPSKHash uc \<mapsto> c),
                                      mu := m'\<rparr>;
                               s2 = enqueueSave s1
                           in Some (None, updateProdULM (\<lambda>m. m(uPSKHash uc \<mapsto> c)) s2)))))))"

definition UpdateCredential ::
  "('h, 'c) collaborators \<Rightarrow> string \<Rightarrow> byte list \<Rightarrow> ('h, 'c) ManagedServer
     \<Rightarrow> (error option \<times> ('h, 'c) ManagedServer) option" where
  "UpdateCredential E username k s =
     (if int (length k) \<noteq> pskLength s then Some (Some (PSKLengthError k (pskLength s)), s)
      else
        (case Lock (mu s) of
           None \<Rightarrow> None
         | Some m \<Rightarrow>
             (case Unlock m of
                None \<Rightarrow> None
              | Some m' \<Rightarrow>
                  (case cachedCredMap s username of
                     None \<Rightarrow> Some (Some (ErrNonexistentUser username), s\<lparr>mu := m'\<rparr>)
                   | Some uc \<Rightarrow>
                       (if uPSK uc = k then Some (Some (ErrSameUPSK username), s\<lparr>mu := m'\<rparr>)
                        else
                          (case NewServerUserCipherConfig E username k (udp s \<noteq> None) of
                             Inl err \<Rightarrow> Some (Some err, s\<lparr>mu := m'\<rparr>)
                           | Inr c \<Rightarrow>
                               (let oldUPSKHash = uPSKHash uc;
                                    uc' = uc\<lparr>uPSK := k, uPSKHash := PSKHash E k\<rparr>;
                                    s1 = s\<lparr>cachedCredMap := (cachedCredMap s)(username \<mapsto> uc'),
                                           cachedUserLookupMap :=
                                             ((cachedUserLookupMap s)(oldUPSKHash := None))(uPSKHash uc' \<mapsto> c),
                                           mu := m'\<rparr>;
                                    s2 = enqueueSave s1
                                in Some (None,
                                     updateProdULM (\<lambda>m. (m(oldUPSKHash := None))(uPSKHash uc' \<mapsto> c)) s2))))))))"

definition DeleteCredential ::
  "string \<Rightarrow> ('h, 'c) ManagedServer \<Rightarrow> (error option \<times> ('h, 'c) ManagedServer) option" where
  "DeleteCredential username s =
     (case Lock (mu s) of
        None \<Rightarrow> None
      | Some m \<Rightarrow>
          (case Unlock m of
             None \<Rightarrow> None
           | Some m' \<Rightarrow>
               (case cachedCredMap s username of
                  None \<Rightarrow> Some (Some (ErrNonexistentUser username), s\<lparr>mu := m'\<rparr>)
                | Some uc \<Rightarrow>
                    (let s1 = s\<lparr>cachedCredMap := (cachedCredMap s)(username := None),
                                cachedUserLookupMap := (cachedUserLookupMap s)(uPSKHash uc := None),
                                mu := m'\<rparr>;
                         s2 = enqueueSave s1
                     in Some (None, updateProdULM (\<lambda>m. m(uPSKHash uc := None)) s2)))))"

text \<open>
  The body of the \<open>for ... range uPSKMap\<close> loop of \<open>loadFromFile\<close>, over the entries still
  to be visited, with the two maps under construction.
\<close>

fun loadLoop ::
  "('h, 'c) collaborators \<Rightarrow> int \<Rightarrow> bool \<Rightarrow> (string \<times> byte list) list
     \<Rightarrow> ('h \<rightharpoonup> 'c) \<Rightarrow> (string \<rightharpoonup> 'h cachedUserCredential)
     \<Rightarrow> error + (('h \<rightharpoonup> 'c) \<times> (string \<rightharpoonup> 'h cachedUserCredential))" where
  "loadLoop E n enableUDP [] userLookupMap credMap = Inr (userLookupMap, credMap)"
| "loadLoop E n enableUDP ((username, k) # rest) userLookupMap credMap =
     (if int (length k) \<noteq> n then Inl (PSKLengthError k n)
      else
        (let h = PSKHash E k in
         case userLookupMap h of
           Some c \<Rightarrow> Inl (ErrDuplicateUPSK (cfgName E c) username)
         | None \<Rightarrow>
             (case NewServerUserCipherConfig E username k enableUDP of
                Inl err \<Rightarrow> Inl err
              | Inr c \<Rightarrow>
                  loadLoop E n enableUDP rest
                    (userLookupMap(h \<mapsto> c))
                    (credMap(username \<mapsto> \<lparr>uPSK = k, uPSKHash = h\<rparr>)))))"

text \<open>
  \<open>loadFromFile\<close> takes the writer lock right after reading the file. The only
  \<open>s.mu.Unlock()\<close> of the function is the one at its end, after the three assignments:
  the return for unchanged content and the error returns of the decoder and of the loop
  are written without one, and the model returns the state with the mutex as it then is.
\<close>

definition loadFromFile ::
  "('h, 'c) collaborators \<Rightarrow> ('h, 'c) ManagedServer
     \<Rightarrow> (error option \<times> ('h, 'c) ManagedServer) option" where
  "loadFromFile E s =
     (case ReadFile E (path s) of
        Inl err \<Rightarrow> Some (Some err, s)
      | Inr content \<Rightarrow>
          (case Lock (mu s) of
             None \<Rightarrow> None
           | Some m \<Rightarrow>
               (let s1 = s\<lparr>mu := m\<rparr> in
                if content = cachedContent s1 then Some (None, s1)
                else
                  (case Decode E content of
                     Inl err \<Rightarrow> Some (Some err, s1)
                   | Inr uPSKMap \<Rightarrow>
                       (case loadLoop E (pskLength s1) (udp s1 \<noteq> None) uPSKMap Map.empty Map.empty of
                          Inl err \<Rightarrow> Some (Some err, s1)
                        | Inr (userLookupMap, credMap) \<Rightarrow>
                            (case Unlock m of
                               None \<Rightarrow> None
                             | Some m' \<Rightarrow>
                                 Some (None, s1\<lparr>cachedContent := content,
                                                cachedUserLookupMap := userLookupMap,
                                                cachedCredMap := credMap,
                                                mu := m'\<rparr>)))))))"

definition replaceProdULM :: "('h, 'c) ManagedServer \<Rightarrow> ('h, 'c) ManagedServer" where
  "replaceProdULM s =
     (let s1 = (case tcp s of None \<Rightarrow> s
                | Some store \<Rightarrow> s\<lparr>tcp := Some (ReplaceUserLookupMap (cachedUserLookupMap s) store)\<rparr>)
      in (case udp s1 of None \<Rightarrow> s1
          | Some store \<Rightarrow> s1\<lparr>udp := Some (ReplaceUserLookupMap (cachedUserLookupMap s1) store)\<rparr>))"

definition LoadFromFile ::
  "('h, 'c) collaborators \<Rightarrow> ('h, 'c) ManagedServer
     \<Rightarrow> (error option \<times> ('h, 'c) ManagedServer) option" where
  "LoadFromFile E s =
     (case loadFromFile E s of
        None \<Rightarrow> None
      | Some (Some err, s') \<Rightarrow> Some (Some err, s')
      | Some (None, s') \<Rightarrow> Some (None, replaceProdULM s'))"

text \<open>
  Consistency of the two caches: the identity hashes held by the cached credentials are
  exactly the keys of the cached user lookup map.
\<close>

definition consistent :: "('h, 'c) ManagedServer \<Rightarrow> bool" where
  "consistent s \<longleftrightarrow> uPSKHash ` ran (cachedCredMap s) = dom (cachedUserLookupMap s)"

section \<open>TCP relay (service/tcp.go)\<close>

text \<open>
  Go's \<open>int\<close> is a signed 64-bit integer on 64-bit platforms: a word whose order is the signed one
  (\<open>word_sless\<close>, \<open>word_sle\<close>) and whose arithmetic wraps.
\<close>

type_synonym go_int = "64 word"

datatype net_error = ErrUDPAssociateHold | EOF | ErrDeadlineExceeded | ErrClosed | ErrOther string

type_synonym addr = string

text \<open>
  \<open>make([]byte, n)\<close> panics for a negative length (the limit of memory is not modelled),
  and the slice expression \<open>b[lo:hi]\<close> panics unless \<open>0 \<le> lo \<le> hi \<le> cap(b)\<close>; the
  buffers sliced here have their capacity equal to their length. \<open>None\<close> is the panic.
\<close>

definition makeslice :: "go_int \<Rightarrow> byte list option" where
  "makeslice n = (if n <s 0 then None else Some (replicate (unat n) 0))"

definition slice :: "byte list \<Rightarrow> go_int \<Rightarrow> go_int \<Rightarrow> byte list option" where
  "slice b lo hi =
     (if 0 \<le>s lo \<and> lo \<le>s hi \<and> sint hi \<le> int (length b)
      then Some (take (unat hi - unat lo) (drop (unat lo) b)) else None)"

definition initialPayloadWaitBufferSize :: go_int where
  "initialPayloadWaitBufferSize = 1280"

text \<open>The timeout of the wait, in milliseconds.\<close>

definition initialPayloadWaitTimeout :: nat where
  "initialPayloadWaitTimeout = 250"

text \<open>
  The interface \<open>zerocopy.Headroom\<close> is embedded in readers and in packers.
  \<open>ReadZeroCopy b start len\<close> gives the buffer as the read leaves it, the payload length
  and the error. A TCP client answers whether it takes an initial payload natively, and
  \<open>Dial\<close> gives the error of dialling, if any.
\<close>

record Headroom =
  FrontHeadroom :: go_int
  RearHeadroom :: go_int

record ReadWriter = Headroom +
  MinPayloadBufferSizePerRead :: go_int
  ReadZeroCopy :: "byte list \<Rightarrow> go_int \<Rightarrow> go_int \<Rightarrow> byte list \<times> go_int \<times> net_error option"

record TCPClient =
  NativeInitialPayload :: bool
  Dial :: "addr \<Rightarrow> byte list \<Rightarrow> net_error option"

text \<open>
  The accepted connection, by the results of the calls made on it: parsing its remote
  address, converting it to an address and port, the one-byte read that holds a SOCKS5
  UDP association, and setting the read deadline (to now plus so many milliseconds, or
  to none).
\<close>

record TCPConn =
  ParseAddr :: "net_error option"
  ToAddrPort :: "net_error option"
  Read :: "net_error option"
  SetReadDeadline :: "nat option \<Rightarrow> net_error option"

record TCPRelay =
  waitForInitialPayload :: bool
  Accept :: "TCPConn \<Rightarrow> net_error + (ReadWriter \<times> addr \<times> byte list)"
  GetTCPClient :: "addr \<Rightarrow> net_error + TCPClient"

text \<open>
  What a handler does to the outside is recorded as a list of events, in order; the log
  entries are left out. \<open>Alloc n\<close> is a buffer of \<open>n\<close> bytes made, \<open>Panic\<close> a runtime panic.
\<close>

datatype tcp_event =
    Alloc nat
  | SetReadDeadlineCall "nat option"
  | ReadZeroCopyCall "byte list" go_int go_int
  | DialCall addr "byte list"
  | TwoWayRelayCall
  | ReadCall
  | ConnCloserDo
  | CloseRemoteConn
  | CloseClientConn
  | Panic

text \<open>
  The end of the wait: \<open>clientConn.SetReadDeadline(time.Time{})\<close>, after which the
  handler goes on to dial with the payload, or returns on an error (\<open>None\<close>).
\<close>

definition resetReadDeadline ::
  "TCPConn \<Rightarrow> tcp_event list \<Rightarrow> byte list \<Rightarrow> tcp_event list \<times> byte list option" where
  "resetReadDeadline clientConn evs payload =
     (case SetReadDeadline clientConn None of
        Some err \<Rightarrow> (evs @ [SetReadDeadlineCall None], None)
      | None \<Rightarrow> (evs @ [SetReadDeadlineCall None], Some payload))"

text \<open>
  The body of the \<open>if\<close> that waits for the initial payload. The result is the events and
  the payload to dial with, or \<open>None\<close> when the handler returns from inside the body.
\<close>

definition initialPayloadWait ::
  "TCPConn \<Rightarrow> ReadWriter \<Rightarrow> tcp_event list \<times> byte list option" where
  "initialPayloadWait clientConn clientRW =
     (let frontHeadroom = FrontHeadroom clientRW;
          rearHeadroom = RearHeadroom clientRW;
          payloadBufSize = (if MinPayloadBufferSizePerRead clientRW = 0
                            then initialPayloadWaitBufferSize
                            else MinPayloadBufferSizePerRead clientRW)
      in case makeslice (frontHeadroom + payloadBufSize + rearHeadroom) of
           None \<Rightarrow> ([Panic], None)
         | Some payload \<Rightarrow>
             (case SetReadDeadline clientConn (Some initialPayloadWaitTimeout) of
                Some err \<Rightarrow>
                  ([Alloc (length payload), SetReadDeadlineCall (Some initialPayloadWaitTimeout)], None)
              | None \<Rightarrow>
                  (case ReadZeroCopy clientRW payload frontHeadroom payloadBufSize of
                     (payload', payloadLength, rerr) \<Rightarrow>
                       (let evs = [Alloc (length payload),
                                   SetReadDeadlineCall (Some initialPayloadWaitTimeout),
                                   ReadZeroCopyCall payload frontHeadroom payloadBufSize]
                        in case rerr of
                             None \<Rightarrow>
                               (case slice payload' frontHeadroom (frontHeadroom + payloadLength) of
                                  None \<Rightarrow> (evs @ [Panic], None)
                                | Some p \<Rightarrow> resetReadDeadline clientConn evs p)
                           | Some err \<Rightarrow>
                               (if err = ErrDeadlineExceeded
                                then resetReadDeadline clientConn evs payload'
                                else (evs, None))))))"

definition handleConn :: "TCPRelay \<Rightarrow> TCPConn \<Rightarrow> tcp_event list" where
  "handleConn s clientConn =
     (case ParseAddr clientConn of
        Some err \<Rightarrow> [CloseClientConn]
      | None \<Rightarrow>
     (case ToAddrPort clientConn of
        Some err \<Rightarrow> [CloseClientConn]
      | None \<Rightarrow>
     (case Accept s clientConn of
        Inl err \<Rightarrow>
          (if err = ErrUDPAssociateHold
           then (case Read clientConn of
                   None \<Rightarrow> [ReadCall, CloseClientConn]
                 | Some err' \<Rightarrow>
                     (if err' = EOF then [ReadCall, CloseClientConn]
                      else [ReadCall, ConnCloserDo, CloseClientConn]))
           else [ConnCloserDo, CloseClientConn])
      | Inr (clientRW, targetAddr, payload) \<Rightarrow>
     (case GetTCPClient s targetAddr of
        Inl err \<Rightarrow> [CloseClientConn]
      | Inr c \<Rightarrow>
          (case (if waitForInitialPayload s \<and> NativeInitialPayload c
                 then initialPayloadWait clientConn clientRW
                 else ([], Some payload)) of
             (evs, None) \<Rightarrow> evs @ [CloseClientConn]
           | (evs, Some payload') \<Rightarrow>
               evs @ [DialCall targetAddr payload'] @
               (case Dial c targetAddr payload' of
                  Some err \<Rightarrow> [CloseClientConn]
                | None \<Rightarrow> [TwoWayRelayCall, CloseRemoteConn, CloseClientConn]))))))"

text \<open>
  The payload buffer size in the words of the specification: the larger of the reader's
  minimum and 1280, in the signed order of Go's \<open>int\<close>.
\<close>

definition spec_payloadBufSize :: "go_int \<Rightarrow> go_int" where
  "spec_payloadBufSize m = (if m <s 1280 then 1280 else m)"

section \<open>UDP session relay (service/udp\_session.go)\<close>

text \<open>
  A \<open>netip.AddrPort\<close>, as far as the relay asks: whether the address is IPv4, whether it
  is IPv4-mapped IPv6, and its text. A packet buffer of the pool (a \<open>*[]byte\<close>) is named
  by a number; the bytes in the buffers are not modelled, and neither are the bounds
  checks of the slice expressions on pool buffers.
\<close>

datatype AddrPort = AddrPort (Is4: bool) (Is4In6: bool) (addrPortText: string)

type_synonym bufp = nat

type_synonym csid = "64 word"

text \<open>
  \<open>sync.Pool\<close> of the standard library: \<open>Get\<close> takes a pooled item when there is one and
  has \<open>New\<close> make a buffer otherwise, \<open>Put\<close> adds an item. \<open>created\<close> counts the buffers
  made so far and names the next one.
\<close>

record Pool =
  pooled :: "bufp list"
  created :: nat

definition Get :: "Pool \<Rightarrow> bufp \<times> Pool" where
  "Get p = (case pooled p of
              [] \<Rightarrow> (created p, p\<lparr>created := Suc (created p)\<rparr>)
            | b # bs \<Rightarrow> (b, p\<lparr>pooled := bs\<rparr>))"

definition Put :: "bufp \<Rightarrow> Pool \<Rightarrow> Pool" where
  "Put b p = p\<lparr>pooled := b # pooled p\<rparr>"

record queuedPacket =
  bufp :: bufp
  start :: go_int
  length_qp :: go_int
  targetAddr :: addr

record Packer = Headroom +
  PackInPlace :: "addr \<Rightarrow> go_int \<Rightarrow> go_int \<Rightarrow> net_error + (go_int \<times> go_int)"

text \<open>
  The session: \<open>natConnSendCh\<close> is the content of the send channel, oldest packet first.
  The socket \<open>natConn\<close> and the two unpackers are left to the results of the calls made
  on them, which the workers and the receive loop take as input.
\<close>

record session =
  clientAddrPort :: AddrPort
  clientOobCache :: "byte list"
  natConnMTU :: go_int
  natConnSendCh :: "queuedPacket list"
  natConnPacker :: Packer
  natConnFixedTargetAddrPort :: AddrPort
  natConnUseFixedTargetAddrPort :: bool
  serverConnPacker :: Packer
  maxClientPacketSize :: go_int

text \<open>
  The outbound client chosen by the router: \<open>ClientAddrPort\<close> is \<open>c.AddrPort()\<close> (fixed
  target, MTU, fwmark, whether the fixed target is used), \<open>NewSession\<close> gives the packer
  of the new session or an error.
\<close>

record UDPClient =
  ClientAddrPort :: "AddrPort \<times> go_int \<times> go_int \<times> bool"
  NewSession :: "net_error + Packer"

text \<open>
  The relay. The constants of the package that are declared in files not among the
  sources (\<open>sendChannelCapacity\<close>, the header lengths) and the functions of package \<open>conn\<close>
  and \<open>socks5\<close> it calls are fields beside the state.
\<close>

record UDPSessionRelay =
  mtu :: go_int
  preferIPv6 :: bool
  packetBufPool :: Pool
  sessionTable :: "csid \<rightharpoonup> session"
  sendChannelCapacity :: nat
  IPv4HeaderLength :: go_int
  IPv6HeaderLength :: go_int
  UDPHeaderLength :: go_int
  Tov4Mappedv6 :: "AddrPort \<Rightarrow> AddrPort"
  AddrFromAddrPort :: "AddrPort \<Rightarrow> addr"

text \<open>
  The results of the calls made during one turn of the receive loop:
  reading from \<open>serverConn\<close> (packet length, OOB length, flags, client address), the check
  of the flags, the session info of the packet, and, as far as the turn gets, the new
  unpacker, unpacking in place (by the new unpacker or by the one of the session), the
  router's client, the new server packer, the new socket, its read deadline, and the
  update of the OOB cache (from the old cache to the new one and an error).
\<close>

record recv_io =
  ReadMsgUDPAddrPort :: "net_error + (go_int \<times> go_int \<times> go_int \<times> AddrPort)"
  ParseFlagsForError :: "net_error option"
  SessionInfo :: "net_error + csid"
  NewUnpacker :: "net_error option"
  UnpackInPlace :: "net_error + (addr \<times> bool \<times> go_int \<times> go_int)"
  GetUDPClient :: "net_error + UDPClient"
  NewPacker :: "net_error + Packer"
  ListenUDP :: "net_error option"
  natConnSetReadDeadline :: "net_error option"
  UpdateOobCache :: "byte list \<Rightarrow> byte list \<times> net_error option"

datatype ctl = Continue | Break

text \<open>
  The miss path of the receive loop, up to and including \<open>s.table[csid] = entry\<close>: the new
  session with the target address and the payload bounds of the packet, or \<open>None\<close> when
  one of the steps fails. Each of the seven failing steps is followed in the source by
  \<open>s.packetBufPool.Put(packetBufp)\<close>, \<open>s.mu.Unlock()\<close> and \<open>continue\<close>; that common tail is
  in \<open>recvIteration\<close>. The two workers started here are the functions further down.
\<close>

definition newSession ::
  "UDPSessionRelay \<Rightarrow> recv_io \<Rightarrow> AddrPort \<Rightarrow> (session \<times> addr \<times> go_int \<times> go_int) option" where
  "newSession s io clientAddrPort' =
     (case NewUnpacker io of
        Some err \<Rightarrow> None
      | None \<Rightarrow>
     (case UnpackInPlace io of
        Inl err \<Rightarrow> None
      | Inr (targetAddr0, hasTargetAddr, payloadStart, payloadLength) \<Rightarrow>
     (let targetAddr' = (if \<not> hasTargetAddr then AddrFromAddrPort s clientAddrPort' else targetAddr0) in
      case GetUDPClient io of
        Inl err \<Rightarrow> None
      | Inr c \<Rightarrow>
     (case ClientAddrPort c of
        (fixedTargetAddrPort, natMTU, natFwmark, useFixedTargetAddrPort) \<Rightarrow>
     (case NewSession c of
        Inl err \<Rightarrow> None
      | Inr natPacker \<Rightarrow>
     (case NewPacker io of
        Inl err \<Rightarrow> None
      | Inr serverPacker \<Rightarrow>
     (case ListenUDP io of
        Some err \<Rightarrow> None
      | None \<Rightarrow>
     (case natConnSetReadDeadline io of
        Some err \<Rightarrow> None
      | None \<Rightarrow>
          Some (\<lparr>clientAddrPort = clientAddrPort',
                 clientOobCache = [],
                 natConnMTU = natMTU,
                 natConnSendCh = [],
                 natConnPacker = natPacker,
                 natConnFixedTargetAddrPort = fixedTargetAddrPort,
                 natConnUseFixedTargetAddrPort = useFixedTargetAddrPort,
                 serverConnPacker = serverPacker,
                 maxClientPacketSize =
                   (if Is4 clientAddrPort' \<or> Is4In6 clientAddrPort'
                    then mtu s - IPv4HeaderLength s - UDPHeaderLength s
                    else mtu s - IPv6HeaderLength s - UDPHeaderLength s)\<rparr>,
                targetAddr', payloadStart, payloadLength)))))))))"

text \<open>
  The hit path: unpack with the unpacker of the session and refresh the client address.
\<close>

definition existingSession ::
  "UDPSessionRelay \<Rightarrow> recv_io \<Rightarrow> AddrPort \<Rightarrow> session \<Rightarrow> (session \<times> addr \<times> go_int \<times> go_int) option" where
  "existingSession s io clientAddrPort' entry =
     (case UnpackInPlace io of
        Inl err \<Rightarrow> None
      | Inr (targetAddr0, hasTargetAddr, payloadStart, payloadLength) \<Rightarrow>
          (let targetAddr' = (if \<not> hasTargetAddr then AddrFromAddrPort s clientAddrPort' else targetAddr0)
           in Some (entry\<lparr>clientAddrPort := clientAddrPort'\<rparr>, targetAddr', payloadStart, payloadLength)))"

text \<open>
  The lookup in the table with its two branches, and one turn of the \<open>for\<close> loop of the
  goroutine started by \<open>Start\<close>. The table lock is taken before the lookup and released
  on every path out of the turn. The \<open>select\<close> with a \<open>default\<close> case sends when the
  channel has room and drops the packet otherwise.
\<close>

definition lookupSession ::
  "UDPSessionRelay \<Rightarrow> recv_io \<Rightarrow> AddrPort \<Rightarrow> csid \<Rightarrow> (session \<times> addr \<times> go_int \<times> go_int) option" where
  "lookupSession s io clientAddrPort' csid' =
     (case sessionTable s csid' of
        None \<Rightarrow> newSession s io clientAddrPort'
      | Some entry \<Rightarrow> existingSession s io clientAddrPort' entry)"

definition recvIteration :: "recv_io \<Rightarrow> UDPSessionRelay \<Rightarrow> ctl \<times> UDPSessionRelay" where
  "recvIteration io s =
     (case Get (packetBufPool s) of
        (packetBufp, pool1) \<Rightarrow>
     (let dropped = s\<lparr>packetBufPool := Put packetBufp pool1\<rparr>
      in case ReadMsgUDPAddrPort io of
        Inl err \<Rightarrow> (if err = ErrClosed then (Break, dropped) else (Continue, dropped))
      | Inr (n, oobn, flags, clientAddrPort0) \<Rightarrow>
     (case ParseFlagsForError io of
        Some err \<Rightarrow> (Continue, dropped)
      | None \<Rightarrow>
     (let clientAddrPort' = Tov4Mappedv6 s clientAddrPort0 in
      case SessionInfo io of
        Inl err \<Rightarrow> (Continue, dropped)
      | Inr csid' \<Rightarrow>
     (case lookupSession s io clientAddrPort' csid' of
        None \<Rightarrow> (Continue, dropped)
      | Some (entry, targetAddr', payloadStart, payloadLength) \<Rightarrow>
          (let entry1 = entry\<lparr>clientOobCache := fst (UpdateOobCache io (clientOobCache entry))\<rparr>
           in if length (natConnSendCh entry1) < sendChannelCapacity s
              then (Continue,
                    s\<lparr>packetBufPool := pool1,
                      sessionTable := (sessionTable s)(csid' \<mapsto>
                         entry1\<lparr>natConnSendCh := natConnSendCh entry1 @
                           [\<lparr>bufp = packetBufp, start = payloadStart,
                             length_qp = payloadLength, targetAddr = targetAddr'\<rparr>]\<rparr>)\<rparr>)
              else (Continue,
                    dropped\<lparr>sessionTable := (sessionTable s)(csid' \<mapsto> entry1)\<rparr>)))))))"

text \<open>
  The upstream worker. The results of the calls made for one queued packet, after packing:
  resolving the target address and writing to \<open>natConn\<close>. The local variables of the
  worker are the cached target address (nil is the empty list) and its address and port.
  What the worker does to the outside is a list of events: a write to \<open>natConn\<close> with the
  bounds of the packet and the destination, and a warning logged.
\<close>

record up_io =
  ResolveAddrPort :: "net_error + AddrPort"
  WriteToUDPAddrPort :: "net_error option"

record up_locals =
  cachedTargetAddr :: addr
  cachedTargetAddrPort :: AddrPort

datatype up_event = WriteToNatConn go_int go_int AddrPort | Warn string

text \<open>
  The end of the loop body: the write to \<open>natConn\<close>, a warning when it fails, and the
  return of the buffer to the pool either way.
\<close>

definition writeAndPut ::
  "queuedPacket \<Rightarrow> up_io \<Rightarrow> go_int \<Rightarrow> go_int \<Rightarrow> up_locals \<Rightarrow> Pool \<Rightarrow> up_event list \<times> up_locals \<times> Pool" where
  "writeAndPut qp io packetStart packetLength locals pool =
     (case WriteToUDPAddrPort io of
        Some err \<Rightarrow>
          ([WriteToNatConn packetStart packetLength (cachedTargetAddrPort locals),
            Warn ''Failed to write packet to natConn''],
           locals, Put (bufp qp) pool)
      | None \<Rightarrow>
          ([WriteToNatConn packetStart packetLength (cachedTargetAddrPort locals)],
           locals, Put (bufp qp) pool))"

text \<open>
  The body of the loop of \<open>relayServerConnToNatConnGeneric\<close> for a packet received from
  the send channel: the events, the local variables and the pool after it.
\<close>

definition relayQueuedPacket ::
  "UDPSessionRelay \<Rightarrow> session \<Rightarrow> queuedPacket \<Rightarrow> up_io \<Rightarrow> up_locals \<Rightarrow> Pool
     \<Rightarrow> up_event list \<times> up_locals \<times> Pool" where
  "relayQueuedPacket s entry qp io locals pool =
     (case PackInPlace (natConnPacker entry) (targetAddr qp) (start qp) (length_qp qp) of
        Inl err \<Rightarrow> ([Warn ''Failed to pack packet''], locals, Put (bufp qp) pool)
      | Inr (packetStart, packetLength) \<Rightarrow>
          (if \<not> natConnUseFixedTargetAddrPort entry \<and> cachedTargetAddr locals \<noteq> targetAddr qp
           then (case ResolveAddrPort io of
                   Inl err \<Rightarrow> ([Warn ''Failed to get target address port''], locals, Put (bufp qp) pool)
                 | Inr targetAddrPort \<Rightarrow>
                     writeAndPut qp io packetStart packetLength
                       (locals\<lparr>cachedTargetAddr := targetAddr qp,
                               cachedTargetAddrPort := Tov4Mappedv6 s targetAddrPort\<rparr>)
                       pool)
           else writeAndPut qp io packetStart packetLength locals pool))"

text \<open>
  The loop itself, over the packets it receives from the channel until the channel is
  closed and empty, each with the results of the calls made for it. The channel is
  closed by the teardown of the session, which also takes the session out of the table
  under the same lock, so the receive loop sends to open channels only.
\<close>

fun relayServerConnToNatConnLoop ::
  "UDPSessionRelay \<Rightarrow> session \<Rightarrow> (queuedPacket \<times> up_io) list \<Rightarrow> up_locals \<Rightarrow> Pool
     \<Rightarrow> up_event list \<times> Pool" where
  "relayServerConnToNatConnLoop s entry [] locals pool = ([], pool)"
| "relayServerConnToNatConnLoop s entry ((qp, io) # rest) locals pool =
     (case relayQueuedPacket s entry qp io locals pool of
        (evs, locals', pool') \<Rightarrow>
          (case relayServerConnToNatConnLoop s entry rest locals' pool' of
             (evs', pool'') \<Rightarrow> (evs @ evs', pool'')))"

definition relayServerConnToNatConnGeneric ::
  "UDPSessionRelay \<Rightarrow> session \<Rightarrow> (queuedPacket \<times> up_io) list \<Rightarrow> Pool \<Rightarrow> up_event list \<times> Pool" where
  "relayServerConnToNatConnGeneric s entry received pool =
     relayServerConnToNatConnLoop s entry received
       \<lparr>cachedTargetAddr = [], cachedTargetAddrPort = natConnFixedTargetAddrPort entry\<rparr> pool"

text \<open>
  The downstream worker. The results of the calls of one turn of its loop: reading from
  \<open>natConn\<close> (packet length, flags, source address), the check of the flags, unpacking in
  place, and writing to \<open>serverConn\<close>. Its events: the scratch buffer made, a write to
  \<open>serverConn\<close> with the bounds of the packet, the OOB bytes and the client address, and
  a runtime panic.
\<close>

record down_io =
  natReadMsgUDPAddrPort :: "net_error + (go_int \<times> go_int \<times> AddrPort)"
  natParseFlagsForError :: "net_error option"
  natUnpackInPlace :: "net_error + (addr \<times> bool \<times> go_int \<times> go_int)"
  WriteMsgUDPAddrPort :: "net_error option"

record down_locals =
  cachedTargetAddr_d :: addr
  cachedPacketFromAddrPort :: "AddrPort option"

datatype down_event =
    MakeBuf nat
  | WriteToServerConn go_int go_int "byte list" AddrPort
  | DownPanic

text \<open>
  The \<open>for\<close> loop of \<open>relayNatConnToServerConnGeneric\<close>, over the results of its turns. The
  loop is left on a read past the deadline and on a write to a closed \<open>serverConn\<close>; when
  the results run out, the worker is waiting in its next read. \<open>cachedPacketFromAddrPort\<close>
  starts as the zero \<open>netip.AddrPort\<close>, which is \<open>None\<close> here.
\<close>

fun relayNatConnToServerConnLoop ::
  "UDPSessionRelay \<Rightarrow> session \<Rightarrow> byte list \<Rightarrow> go_int \<Rightarrow> down_locals \<Rightarrow> down_io list \<Rightarrow> down_event list" where
  "relayNatConnToServerConnLoop s entry packetBuf frontHeadroom locals [] = []"
| "relayNatConnToServerConnLoop s entry packetBuf frontHeadroom locals (io # rest) =
     (case natReadMsgUDPAddrPort io of
        Inl err \<Rightarrow>
          (if err = ErrDeadlineExceeded then []
           else relayNatConnToServerConnLoop s entry packetBuf frontHeadroom locals rest)
      | Inr (n, flags, packetFromAddrPort) \<Rightarrow>
     (case natParseFlagsForError io of
        Some err \<Rightarrow> relayNatConnToServerConnLoop s entry packetBuf frontHeadroom locals rest
      | None \<Rightarrow>
     (case natUnpackInPlace io of
        Inl err \<Rightarrow> relayNatConnToServerConnLoop s entry packetBuf frontHeadroom locals rest
      | Inr (targetAddr0, hasTargetAddr, payloadStart, payloadLength) \<Rightarrow>
     (case (if hasTargetAddr then (targetAddr0, locals)
            else if Some packetFromAddrPort = cachedPacketFromAddrPort locals
                 then (cachedTargetAddr_d locals, locals)
                 else (AddrFromAddrPort s packetFromAddrPort,
                       locals\<lparr>cachedPacketFromAddrPort := Some packetFromAddrPort,
                               cachedTargetAddr_d := AddrFromAddrPort s packetFromAddrPort\<rparr>)) of
        (targetAddr', locals') \<Rightarrow>
     (case PackInPlace (serverConnPacker entry) targetAddr' payloadStart payloadLength of
        Inl err \<Rightarrow> relayNatConnToServerConnLoop s entry packetBuf frontHeadroom locals' rest
      | Inr (packetStart, packetLength) \<Rightarrow>
     (case slice packetBuf packetStart (packetStart + packetLength) of
        None \<Rightarrow> [DownPanic]
      | Some packet \<Rightarrow>
          WriteToServerConn packetStart packetLength (clientOobCache entry) (clientAddrPort entry) #
          (case WriteMsgUDPAddrPort io of
             Some err \<Rightarrow>
               (if err = ErrClosed then []
                else relayNatConnToServerConnLoop s entry packetBuf frontHeadroom locals' rest)
           | None \<Rightarrow> relayNatConnToServerConnLoop s entry packetBuf frontHeadroom locals' rest)))))))"

text \<open>
  \<open>relayNatConnToServerConnGeneric\<close>: the headrooms, the scratch buffer, the receive
  window \<open>packetBuf[frontHeadroom : frontHeadroom+entry.maxClientPacketSize]\<close>, the loop.
\<close>

definition relayNatConnToServerConnGeneric ::
  "UDPSessionRelay \<Rightarrow> session \<Rightarrow> down_io list \<Rightarrow> down_event list" where
  "relayNatConnToServerConnGeneric s entry ios =
     (let serverFrontHeadroom = FrontHeadroom (serverConnPacker entry);
          serverRearHeadroom = RearHeadroom (serverConnPacker entry);
          clientFrontHeadroom = FrontHeadroom (natConnPacker entry);
          clientRearHeadroom = RearHeadroom (natConnPacker entry);
          frontHeadroom = (if clientFrontHeadroom <s serverFrontHeadroom
                           then serverFrontHeadroom - clientFrontHeadroom else 0);
          rearHeadroom = (if clientRearHeadroom <s serverRearHeadroom
                          then serverRearHeadroom - clientRearHeadroom else 0)
      in case makeslice (frontHeadroom + maxClientPacketSize entry + rearHeadroom) of
           None \<Rightarrow> [DownPanic]
         | Some packetBuf \<Rightarrow>
             (case slice packetBuf frontHeadroom (frontHeadroom + maxClientPacketSize entry) of
                None \<Rightarrow> [MakeBuf (length packetBuf), DownPanic]
              | Some recvBuf \<Rightarrow>
                  MakeBuf (length packetBuf) #
                  relayNatConnToServerConnLoop s entry packetBuf frontHeadroom
                    \<lparr>cachedTargetAddr_d = [], cachedPacketFromAddrPort = None\<rparr> ios))"


text \<open>
  The buffers waiting in the send channel of session \<open>k\<close>, oldest first (none when the
  table has no such session), and the test for the event of the scratch buffer.
\<close>

definition queued :: "UDPSessionRelay \<Rightarrow> csid \<Rightarrow> bufp list" where
  "queued s k = (case sessionTable s k of
                   None \<Rightarrow> []
                 | Some entry \<Rightarrow> map bufp (natConnSendCh entry))"

fun isMakeBuf :: "down_event \<Rightarrow> bool" where
  "isMakeBuf (MakeBuf n) = True"
| "isMakeBuf (WriteToServerConn a b c d) = False"
| "isMakeBuf DownPanic = False"

section \<open>Example inputs\<close>

text \<open>
  A server with 16-byte keys and both credential stores attached. The identity hash of
  the examples keeps the first 16 bytes of a key; the examples that need two equal
  hashes use the same key twice, so they do not depend on that choice. The credential
  file holds \<open>content\<close>; the decoder knows the three contents used below.
\<close>

definition exampleKey :: "byte list" where
  "exampleKey = replicate 16 1"

definition exampleCollaborators :: "string \<Rightarrow> (byte list, string \<times> byte list) collaborators" where
  \<open>exampleCollaborators content =
     \<lparr>PSKHash = take 16,
      NewServerUserCipherConfig = (\<lambda>username k enableUDP. Inr (username, k)),
      cfgName = fst,
      ReadFile = (\<lambda>p. if p = ''creds.json'' then Inr content else Inl (ErrExternal ''no such file'')),
      Decode = (\<lambda>c. if c = ''{}'' then Inr []
                 else if c = ''{"alice":"AQID"}'' then Inr [(''alice'', [1, 2, 3])]
                 else Inl (ErrExternal ''invalid character''))\<rparr>\<close>

definition exampleServer :: "(byte list, string \<times> byte list) ManagedServer" where
  "exampleServer =
     \<lparr>pskLength = 16, tcp = Some \<lparr>ulm = Map.empty\<rparr>, udp = Some \<lparr>ulm = Map.empty\<rparr>, path = ''creds.json'',
      cachedContent = [], cachedCredMap = Map.empty, cachedUserLookupMap = Map.empty,
      mu = unlocked, saveQueue = 0\<rparr>"

definition loadedServer :: "(byte list, string \<times> byte list) ManagedServer" where
  "loadedServer = exampleServer\<lparr>cachedContent := ''{}''\<rparr>"

definition lockedServer :: "(byte list, string \<times> byte list) ManagedServer" where
  "lockedServer = loadedServer\<lparr>mu := RW True 0\<rparr>"

definition exampleCred :: "(byte list) cachedUserCredential" where
  "exampleCred = \<lparr>uPSK = exampleKey, uPSKHash = exampleKey\<rparr>"

definition oneUserServer :: "(byte list, string \<times> byte list) ManagedServer" where
  "oneUserServer =
     loadedServer\<lparr>tcp := Some \<lparr>ulm = [exampleKey \<mapsto> (''alice'', exampleKey)]\<rparr>,
                  udp := Some \<lparr>ulm = [exampleKey \<mapsto> (''alice'', exampleKey)]\<rparr>,
                  cachedCredMap := [''alice'' \<mapsto> exampleCred],
                  cachedUserLookupMap := [exampleKey \<mapsto> (''alice'', exampleKey)],
                  saveQueue := 1\<rparr>"

definition twoUsersServer :: "(byte list, string \<times> byte list) ManagedServer" where
  "twoUsersServer =
     loadedServer\<lparr>tcp := Some \<lparr>ulm = [exampleKey \<mapsto> (''bob'', exampleKey)]\<rparr>,
                  udp := Some \<lparr>ulm = [exampleKey \<mapsto> (''bob'', exampleKey)]\<rparr>,
                  cachedCredMap := [''alice'' \<mapsto> exampleCred, ''bob'' \<mapsto> exampleCred],
                  cachedUserLookupMap := [exampleKey \<mapsto> (''bob'', exampleKey)],
                  saveQueue := 1\<rparr>"

definition orphanServer :: "(byte list, string \<times> byte list) ManagedServer" where
  "orphanServer =
     loadedServer\<lparr>tcp := Some \<lparr>ulm = Map.empty\<rparr>,
                  udp := Some \<lparr>ulm = Map.empty\<rparr>,
                  cachedCredMap := [''bob'' \<mapsto> exampleCred],
                  cachedUserLookupMap := Map.empty,
                  saveQueue := 1\<rparr>"

text \<open>
  A framed reader without headroom whose one read puts \<open>data\<close> at the start offset and
  returns \<open>rerr\<close>; a client with native initial payload; a connection on which every
  call succeeds; a relay that waits, whose server framing hands back \<open>payload\<close>.
\<close>

definition exampleReadWriter :: "go_int \<Rightarrow> byte list \<Rightarrow> net_error option \<Rightarrow> ReadWriter" where
  "exampleReadWriter m data rerr =
     \<lparr>FrontHeadroom = 0, RearHeadroom = 0, MinPayloadBufferSizePerRead = m,
      ReadZeroCopy = (\<lambda>b start len.
        (take (unat start) b @ data @ drop (unat start + length data) b,
         word_of_nat (length data), rerr))\<rparr>"

definition exampleTCPClient :: TCPClient where
  "exampleTCPClient = \<lparr>NativeInitialPayload = True, Dial = (\<lambda>target payload. None)\<rparr>"

definition exampleTCPConn :: TCPConn where
  "exampleTCPConn =
     \<lparr>ParseAddr = None, ToAddrPort = None, Read = None, SetReadDeadline = (\<lambda>d. None)\<rparr>"

definition exampleTCPRelay :: "ReadWriter \<Rightarrow> byte list \<Rightarrow> TCPRelay" where
  "exampleTCPRelay rw payload =
     \<lparr>waitForInitialPayload = True,
      Accept = (\<lambda>clientConn. Inr (rw, ''example.com:443'', payload)),
      GetTCPClient = (\<lambda>target. Inr exampleTCPClient)\<rparr>"

text \<open>
  A UDP session whose server packer asks for 24 bytes in front and 16 behind and whose
  outbound packer asks for none, with one packet (buffer 0) in its send channel; a relay
  with a send channel capacity of 1 that has this session in its table and an empty
  pool; the results of a turn of the receive loop that reaches the send for this session.
\<close>

definition examplePacker :: "go_int \<Rightarrow> go_int \<Rightarrow> Packer" where
  "examplePacker f r =
     \<lparr>FrontHeadroom = f, RearHeadroom = r,
      PackInPlace = (\<lambda>target payloadStart payloadLength. Inr (payloadStart, payloadLength))\<rparr>"

definition exampleQueuedPacket :: queuedPacket where
  "exampleQueuedPacket = \<lparr>bufp = 0, start = 40, length_qp = 60, targetAddr = ''example.com:53''\<rparr>"

definition exampleSession :: session where
  "exampleSession =
     \<lparr>clientAddrPort = AddrPort False True ''[::ffff:192.0.2.1]:5000'',
      clientOobCache = [],
      natConnMTU = 1500,
      natConnSendCh = [exampleQueuedPacket],
      natConnPacker = examplePacker 0 0,
      natConnFixedTargetAddrPort = AddrPort False False [],
      natConnUseFixedTargetAddrPort = False,
      serverConnPacker = examplePacker 24 16,
      maxClientPacketSize = 1472\<rparr>"

definition exampleUDPRelay :: UDPSessionRelay where
  "exampleUDPRelay =
     \<lparr>mtu = 1500, preferIPv6 = False,
      packetBufPool = \<lparr>pooled = [], created = 1\<rparr>,
      sessionTable = [43981 \<mapsto> exampleSession],
      sendChannelCapacity = 1,
      IPv4HeaderLength = 20, IPv6HeaderLength = 40, UDPHeaderLength = 8,
      Tov4Mappedv6 = (\<lambda>a. a),
      AddrFromAddrPort = addrPortText\<rparr>"

definition exampleRecvIO :: recv_io where
  "exampleRecvIO =
     \<lparr>ReadMsgUDPAddrPort = Inr (100, 0, 0, AddrPort False True ''[::ffff:192.0.2.1]:5000''),
      ParseFlagsForError = None,
      SessionInfo = Inr 43981,
      NewUnpacker = None,
      UnpackInPlace = Inr (''example.com:53'', True, 40, 60),
      GetUDPClient = Inl (ErrOther ''no route''),
      NewPacker = Inl (ErrOther ''unused''),
      ListenUDP = None,
      natConnSetReadDeadline = None,
      UpdateOobCache = (\<lambda>cache. (cache, None))\<rparr>"

definition exampleUpIO :: up_io where
  "exampleUpIO =
     \<lparr>ResolveAddrPort = Inr (AddrPort True False ''198.51.100.7:53''),
      WriteToUDPAddrPort = Some (ErrOther ''network is unreachable'')\<rparr>"

section \<open>Properties of the credential manager\<close>

lemma Lock_Some_iff: "Lock m = Some m1 \<longleftrightarrow> m = unlocked \<and> m1 = RW True 0"
  by (cases m) (auto simp: unlocked_def)

lemma exampleKey_facts: "take 16 exampleKey = exampleKey" "length exampleKey = 16"
  by (simp_all add: exampleKey_def)

lemmas example_server_defs =
  exampleServer_def loadedServer_def lockedServer_def oneUserServer_def twoUsersServer_def
  orphanServer_def exampleCred_def exampleCollaborators_def unlocked_def

lemma load_example_first:
  "LoadFromFile (exampleCollaborators ''{}'') exampleServer = Some (None, loadedServer)"
  by (simp add: LoadFromFile_def loadFromFile_def replaceProdULM_def ReplaceUserLookupMap_def
      example_server_defs)

lemma load_example_again:
  "LoadFromFile (exampleCollaborators ''{}'') loadedServer = Some (None, lockedServer)"
  by (simp add: LoadFromFile_def loadFromFile_def replaceProdULM_def ReplaceUserLookupMap_def
      example_server_defs)

lemma load_example_short_key:
  \<open>LoadFromFile (exampleCollaborators ''{"alice":"AQID"}'') loadedServer
     = Some (Some (PSKLengthError [1, 2, 3] 16), lockedServer)\<close>
  by (simp add: LoadFromFile_def loadFromFile_def replaceProdULM_def ReplaceUserLookupMap_def
      example_server_defs)

lemma lockedServer_blocks:
  "GetCredential u lockedServer = None"
  "AddCredential (exampleCollaborators ''{}'') ''alice'' exampleKey lockedServer = None"
  "LoadFromFile (exampleCollaborators ''{}'') lockedServer = None"
  by (simp_all add: GetCredential_def AddCredential_def LoadFromFile_def loadFromFile_def
      exampleKey_facts example_server_defs)

lemma add_example_alice:
  "AddCredential (exampleCollaborators c) ''alice'' exampleKey loadedServer = Some (None, oneUserServer)"
  by (simp add: AddCredential_def enqueueSave_def updateProdULM_def UpdateUserLookupMap_def
      Let_def exampleKey_facts example_server_defs)

lemma add_example_bob:
  "AddCredential (exampleCollaborators c) ''bob'' exampleKey oneUserServer = Some (None, twoUsersServer)"
  by (simp add: AddCredential_def enqueueSave_def updateProdULM_def UpdateUserLookupMap_def
      Let_def exampleKey_facts example_server_defs)

lemma delete_example_alice:
  "DeleteCredential ''alice'' twoUsersServer = Some (None, orphanServer)"
  by (simp add: DeleteCredential_def enqueueSave_def updateProdULM_def UpdateUserLookupMap_def
      Let_def exampleKey_facts example_server_defs fun_upd_twist)

lemma example_servers_consistent:
  "consistent loadedServer" "consistent oneUserServer" "consistent twoUsersServer"
  "\<not> consistent orphanServer"
  by (simp_all add: consistent_def example_server_defs)

text \<open>
  What \<open>loadFromFile\<close> leaves behind, in general: an error return keeps every field but
  the mutex, which is released only when the error came from reading the file; and the
  return for unchanged content keeps the mutex as well.
\<close>

lemma loadFromFile_error_state:
  assumes "loadFromFile E s = Some (Some e, s')"
  shows "(ReadFile E (path s) = Inl e \<and> s' = s)
       \<or> ((\<exists>content. ReadFile E (path s) = Inr content) \<and> mu s = unlocked
           \<and> s' = s\<lparr>mu := RW True 0\<rparr>)"
  using assms unfolding loadFromFile_def Let_def
  by (auto simp: Lock_Some_iff split: sum.splits option.splits if_splits prod.splits)

lemma loadFromFile_unchanged_state:
  assumes "ReadFile E (path s) = Inr (cachedContent s)" and "mu s = unlocked"
  shows "loadFromFile E s = Some (None, s\<lparr>mu := RW True 0\<rparr>)"
  using assms unfolding loadFromFile_def Let_def
  by (simp add: unlocked_def)

lemma write_locked_blocks:
  assumes "writer (mu s)"
  shows "GetCredential u s = None" and "DeleteCredential u s = None"
    and "loadFromFile E s = None \<or> (\<exists>e. ReadFile E (path s) = Inl e)"
  using assms
  by (cases "mu s"; auto simp: GetCredential_def DeleteCredential_def loadFromFile_def
        split: sum.splits)+

text \<open>
  Where the consistency of the caches does hold: the loop of \<open>loadFromFile\<close> builds
  consistent maps from entries with distinct usernames (the keys of a Go map), and
  \<open>AddCredential\<close> keeps the caches consistent.
\<close>

lemma loadLoop_consistent:
  assumes "loadLoop E n b kvs userLookupMap credMap = Inr (userLookupMap', credMap')"
    and "distinct (map fst kvs)"
    and "fst ` set kvs \<inter> dom credMap = {}"
    and "uPSKHash ` ran credMap = dom userLookupMap"
  shows "uPSKHash ` ran credMap' = dom userLookupMap'"
  using assms
proof (induction kvs arbitrary: userLookupMap credMap)
  case Nil
  then show ?case by simp
next
  case (Cons a kvs)
  obtain u k where a: "a = (u, k)"
    by (cases a)
  from Cons.prems(1) a obtain c where
    c: "NewServerUserCipherConfig E u k b = Inr c"
    and rest: "loadLoop E n b kvs (userLookupMap(PSKHash E k \<mapsto> c))
                 (credMap(u \<mapsto> \<lparr>uPSK = k, uPSKHash = PSKHash E k\<rparr>))
               = Inr (userLookupMap', credMap')"
    by (auto simp: Let_def split: if_splits option.splits sum.splits)
  have free: "credMap u = None"
    using Cons.prems(3) a by auto
  have "fst ` set kvs \<inter> dom (credMap(u \<mapsto> \<lparr>uPSK = k, uPSKHash = PSKHash E k\<rparr>)) = {}"
    using Cons.prems(2,3) a by auto
  moreover have "uPSKHash ` ran (credMap(u \<mapsto> \<lparr>uPSK = k, uPSKHash = PSKHash E k\<rparr>))
                 = dom (userLookupMap(PSKHash E k \<mapsto> c))"
    using Cons.prems(4) free by (simp add: ran_map_upd)
  moreover have "distinct (map fst kvs)"
    using Cons.prems(2) by simp
  ultimately show ?case
    using Cons.IH [OF rest] by blast
qed

lemma loadFromFile_consistent:
  assumes "loadFromFile E s = Some (None, s')"
    and "\<And>content kvs. Decode E content = Inr kvs \<Longrightarrow> distinct (map fst kvs)"
    and "consistent s"
  shows "consistent s'"
proof (cases "cachedUserLookupMap s' = cachedUserLookupMap s \<and> cachedCredMap s' = cachedCredMap s")
  case True
  with assms(3) show ?thesis by (simp add: consistent_def)
next
  case False
  with assms(1) obtain content kvs where
    d: "Decode E content = Inr kvs"
    and l: "loadLoop E (pskLength s) (udp s \<noteq> None) kvs Map.empty Map.empty
            = Inr (cachedUserLookupMap s', cachedCredMap s')"
    unfolding loadFromFile_def Let_def
    by (auto split: sum.splits option.splits if_splits prod.splits)
  show ?thesis
    unfolding consistent_def
    using loadLoop_consistent [OF l assms(2) [OF d]] by simp
qed

lemma AddCredential_consistent:
  assumes "consistent s" and "AddCredential E u k s = Some (r, s')"
  shows "consistent s'"
proof (cases r)
  case (Some e)
  with assms(2) have "s' = s"
    unfolding AddCredential_def
    by (auto simp: Lock_Some_iff unlocked_def Let_def split: if_splits option.splits sum.splits)
  with assms(1) show ?thesis by simp
next
  case None
  with assms(2) obtain c where
    free: "cachedCredMap s u = None"
    and cm: "cachedCredMap s' = (cachedCredMap s)(u \<mapsto> \<lparr>uPSK = k, uPSKHash = PSKHash E k\<rparr>)"
    and lm: "cachedUserLookupMap s' = (cachedUserLookupMap s)(PSKHash E k \<mapsto> c)"
    unfolding AddCredential_def
    by (auto simp: Let_def enqueueSave_def updateProdULM_def
             split: if_splits option.splits sum.splits)
  show ?thesis
    using assms(1) free unfolding consistent_def cm lm
    by (simp add: ran_map_upd)
qed

text \<open>
  Claim C2. Every error return of \<open>LoadFromFile\<close> should leave the prior state unchanged
  and the server usable. Evaluated on a server that has loaded \<open>{}\<close> and whose file now
  holds a 3-byte key for alice: \<open>LoadFromFile\<close> returns the PSK length error and leaves the
  caches and both credential stores as they were, but the mutex stays write-locked,
  and then \<open>GetCredential\<close>, \<open>AddCredential\<close> and a retried \<open>LoadFromFile\<close> never return.
\<close>

theorem LoadFromFile_error_leaves_mutex_locked:
  \<open>LoadFromFile (exampleCollaborators ''{"alice":"AQID"}'') loadedServer
     = Some (Some (PSKLengthError [1, 2, 3] 16), loadedServer\<lparr>mu := RW True 0\<rparr>)
   \<and> mu loadedServer = RW False 0
   \<and> GetCredential ''alice'' (loadedServer\<lparr>mu := RW True 0\<rparr>) = None
   \<and> AddCredential (exampleCollaborators ''{}'') ''alice'' exampleKey (loadedServer\<lparr>mu := RW True 0\<rparr>) = None
   \<and> LoadFromFile (exampleCollaborators ''{}'') (loadedServer\<lparr>mu := RW True 0\<rparr>) = None\<close>
  using load_example_short_key lockedServer_blocks
  by (simp add: lockedServer_def) (simp add: example_server_defs)

text \<open>
  Claim C4. A second \<open>LoadFromFile\<close> of an unchanged file should leave the server in the
  state it had before the call. Evaluated on the server that has just loaded \<open>{}\<close>
  successfully: the second call returns nil and keeps the caches and the stores, but the
  state it leaves differs from the one before in the mutex, which is write-locked, so
  that \<open>GetCredential\<close>, which returned before the call, does not return after it.
\<close>

theorem LoadFromFile_unchanged_leaves_mutex_locked:
  "LoadFromFile (exampleCollaborators ''{}'') exampleServer = Some (None, loadedServer)
   \<and> LoadFromFile (exampleCollaborators ''{}'') loadedServer = Some (None, loadedServer\<lparr>mu := RW True 0\<rparr>)
   \<and> loadedServer\<lparr>mu := RW True 0\<rparr> \<noteq> loadedServer
   \<and> GetCredential ''alice'' loadedServer = Some ((\<lparr>Name = [], UPSK = []\<rparr>, False), loadedServer)
   \<and> GetCredential ''alice'' (loadedServer\<lparr>mu := RW True 0\<rparr>) = None"
proof -
  have "loadedServer\<lparr>mu := RW True 0\<rparr> \<noteq> loadedServer"
  proof
    assume "loadedServer\<lparr>mu := RW True 0\<rparr> = loadedServer"
    then have "mu (loadedServer\<lparr>mu := RW True 0\<rparr>) = mu loadedServer" by simp
    then show False by (simp add: example_server_defs)
  qed
  moreover have "GetCredential ''alice'' loadedServer
                   = Some ((\<lparr>Name = [], UPSK = []\<rparr>, False), loadedServer)"
    by (simp add: GetCredential_def example_server_defs)
  ultimately show ?thesis
    using load_example_first load_example_again lockedServer_blocks(1)[of "''alice''"]
    by (simp add: lockedServer_def)
qed

text \<open>
  Claim C6. The consistency of \<open>cachedCredMap\<close> and \<open>cachedUserLookupMap\<close> should hold after
  a successful load and be preserved by every add, update and delete. Evaluated from the
  server that has loaded \<open>{}\<close>: alice and bob are added with the same key, which
  \<open>AddCredential\<close> accepts (the check for a duplicate identity hash is in the loop of
  \<open>loadFromFile\<close> only); the caches are consistent after the load and after each add; then
  alice is deleted, which removes the shared hash from the lookup map while bob's
  credential still carries it.
\<close>

theorem consistency_broken_by_shared_uPSK:
  "LoadFromFile (exampleCollaborators ''{}'') exampleServer = Some (None, loadedServer)
   \<and> consistent loadedServer
   \<and> AddCredential (exampleCollaborators ''{}'') ''alice'' exampleKey loadedServer = Some (None, oneUserServer)
   \<and> consistent oneUserServer
   \<and> AddCredential (exampleCollaborators ''{}'') ''bob'' exampleKey oneUserServer = Some (None, twoUsersServer)
   \<and> consistent twoUsersServer
   \<and> DeleteCredential ''alice'' twoUsersServer = Some (None, orphanServer)
   \<and> \<not> consistent orphanServer
   \<and> cachedCredMap orphanServer ''bob'' = Some \<lparr>uPSK = exampleKey, uPSKHash = exampleKey\<rparr>
   \<and> cachedUserLookupMap orphanServer exampleKey = None"
  using load_example_first add_example_alice add_example_bob delete_example_alice
    example_servers_consistent
  by (simp add: orphanServer_def exampleCred_def)

text \<open>
  Claim C7. When \<open>AddCredential\<close>, \<open>UpdateCredential\<close> or \<open>DeleteCredential\<close> returns an error,
  the state it leaves is the state before the call (the caches, both credential stores
  and the save queue included). An empty username on add gives \<open>ErrEmptyUsername\<close>, a key
  of the wrong length gives the PSK length error that carries the key and the expected
  length, and a username that is not there gives, on update and on delete, the
  nonexistent-user error that carries the username; these calls do return.
\<close>

theorem credential_api_errors_leave_state:
  "(AddCredential E u k s = Some (Some e, s') \<longrightarrow> s' = s)
   \<and> (UpdateCredential E u k s = Some (Some e, s') \<longrightarrow> s' = s)
   \<and> (DeleteCredential u s = Some (Some e, s') \<longrightarrow> s' = s)
   \<and> (u = [] \<longrightarrow> AddCredential E u k s = Some (Some ErrEmptyUsername, s))
   \<and> (u \<noteq> [] \<and> int (length k) \<noteq> pskLength s \<longrightarrow>
        AddCredential E u k s = Some (Some (PSKLengthError k (pskLength s)), s))
   \<and> (int (length k) \<noteq> pskLength s \<longrightarrow>
        UpdateCredential E u k s = Some (Some (PSKLengthError k (pskLength s)), s))
   \<and> (int (length k) = pskLength s \<and> mu s = unlocked \<and> cachedCredMap s u = None \<longrightarrow>
        UpdateCredential E u k s = Some (Some (ErrNonexistentUser u), s))
   \<and> (mu s = unlocked \<and> cachedCredMap s u = None \<longrightarrow>
        DeleteCredential u s = Some (Some (ErrNonexistentUser u), s))"
  unfolding AddCredential_def UpdateCredential_def DeleteCredential_def
  by (auto simp: Lock_Some_iff unlocked_def Let_def split: if_splits option.splits sum.splits)

theorem credential_api_errors_leave_state_witness:
  "AddCredential (exampleCollaborators ''{}'') [] exampleKey oneUserServer
     = Some (Some ErrEmptyUsername, oneUserServer)
   \<and> AddCredential (exampleCollaborators ''{}'') ''bob'' [1, 2, 3] oneUserServer
     = Some (Some (PSKLengthError [1, 2, 3] 16), oneUserServer)
   \<and> UpdateCredential (exampleCollaborators ''{}'') ''alice'' [1, 2, 3] oneUserServer
     = Some (Some (PSKLengthError [1, 2, 3] 16), oneUserServer)
   \<and> UpdateCredential (exampleCollaborators ''{}'') ''bob'' exampleKey oneUserServer
     = Some (Some (ErrNonexistentUser ''bob''), oneUserServer)
   \<and> DeleteCredential ''bob'' oneUserServer
     = Some (Some (ErrNonexistentUser ''bob''), oneUserServer)"
  using credential_api_errors_leave_state
          [of "exampleCollaborators ''{}''" "[]" exampleKey oneUserServer]
        credential_api_errors_leave_state
          [of "exampleCollaborators ''{}''" "''bob''" "[1, 2, 3]" oneUserServer]
        credential_api_errors_leave_state
          [of "exampleCollaborators ''{}''" "''alice''" "[1, 2, 3]" oneUserServer]
        credential_api_errors_leave_state
          [of "exampleCollaborators ''{}''" "''bob''" exampleKey oneUserServer]
  by (simp add: exampleKey_facts example_server_defs)

text \<open>
  Claim C8. If \<open>AddCredential(u, k)\<close> returns nil, then \<open>GetCredential(u)\<close> on the state it
  leaves returns the credential with name \<open>u\<close> and key \<open>k\<close>, and true.
\<close>

theorem GetCredential_after_AddCredential:
  "AddCredential E u k s = Some (None, s') \<Longrightarrow>
   GetCredential u s' = Some ((\<lparr>Name = u, UPSK = k\<rparr>, True), s')"
  unfolding AddCredential_def
  by (auto simp: GetCredential_def Lock_Some_iff unlocked_def Let_def enqueueSave_def
        updateProdULM_def split: if_splits option.splits sum.splits)

theorem GetCredential_after_AddCredential_witness:
  "AddCredential (exampleCollaborators ''{}'') ''alice'' exampleKey loadedServer = Some (None, oneUserServer)
   \<and> GetCredential ''alice'' oneUserServer
       = Some ((\<lparr>Name = ''alice'', UPSK = exampleKey\<rparr>, True), oneUserServer)"
  using GetCredential_after_AddCredential [OF add_example_alice [of "''{}''"]] add_example_alice
  by simp

text \<open>
  Claim C10. \<open>UpdateCredential(u, k)\<close> for an existing user \<open>u\<close> whose current key is \<open>k\<close>
  returns an error and leaves the state as it was: the same-uPSK error when \<open>k\<close> has the
  configured length, the PSK length error otherwise.
\<close>

theorem UpdateCredential_same_uPSK:
  "mu s = unlocked \<Longrightarrow> cachedCredMap s u = Some uc \<Longrightarrow> uPSK uc = k \<Longrightarrow>
   UpdateCredential E u k s =
     Some (Some (if int (length k) = pskLength s then ErrSameUPSK u
                 else PSKLengthError k (pskLength s)), s)"
  unfolding UpdateCredential_def
  by (auto simp: unlocked_def)

theorem UpdateCredential_same_uPSK_witness:
  "mu oneUserServer = unlocked
   \<and> cachedCredMap oneUserServer ''alice'' = Some exampleCred
   \<and> uPSK exampleCred = exampleKey
   \<and> UpdateCredential (exampleCollaborators ''{}'') ''alice'' exampleKey oneUserServer
       = Some (Some (ErrSameUPSK ''alice''), oneUserServer)"
proof -
  have 1: "mu oneUserServer = unlocked"
    and 2: "cachedCredMap oneUserServer ''alice'' = Some exampleCred"
    and 3: "uPSK exampleCred = exampleKey"
    by (simp_all add: oneUserServer_def loadedServer_def exampleServer_def exampleCred_def)
  have 4: "int (length exampleKey) = pskLength oneUserServer"
    by (simp add: exampleKey_facts oneUserServer_def loadedServer_def exampleServer_def)
  show ?thesis
    using UpdateCredential_same_uPSK [OF 1 2 3, of "exampleCollaborators ''{}''"] 1 2 3 4
    by simp
qed

section \<open>Properties of the TCP relay\<close>

lemmas example_tcp_defs =
  exampleTCPRelay_def exampleTCPConn_def exampleTCPClient_def exampleReadWriter_def
  handleConn_def initialPayloadWait_def resetReadDeadline_def makeslice_def slice_def
  initialPayloadWaitBufferSize_def initialPayloadWaitTimeout_def word_sless_alt word_sle_eq

lemma handleConn_example_payload:
  "handleConn (exampleTCPRelay (exampleReadWriter 0 [104, 105] None) [71, 69, 84]) exampleTCPConn =
     [Alloc 1280, SetReadDeadlineCall (Some 250), ReadZeroCopyCall (replicate 1280 0) 0 1280,
      SetReadDeadlineCall None, DialCall ''example.com:443'' [104, 105],
      TwoWayRelayCall, CloseRemoteConn, CloseClientConn]"
  by (simp add: example_tcp_defs)

lemma handleConn_example_100:
  "handleConn (exampleTCPRelay (exampleReadWriter 100 [] (Some ErrDeadlineExceeded)) []) exampleTCPConn =
     [Alloc 100, SetReadDeadlineCall (Some 250), ReadZeroCopyCall (replicate 100 0) 0 100,
      SetReadDeadlineCall None, DialCall ''example.com:443'' (replicate 100 0),
      TwoWayRelayCall, CloseRemoteConn, CloseClientConn]"
  by (simp add: example_tcp_defs)

lemma makeslice_length: "makeslice n = Some b \<Longrightarrow> length b = unat n"
  by (auto simp: makeslice_def split: if_splits)

lemma resetReadDeadline_events:
  "fst (resetReadDeadline c evs p) = evs @ [SetReadDeadlineCall None]"
  by (simp add: resetReadDeadline_def split: option.splits)

lemma initialPayloadWait_Alloc:
  "Alloc n \<in> set (fst (initialPayloadWait clientConn clientRW)) \<Longrightarrow>
   n = unat (FrontHeadroom clientRW +
             (if MinPayloadBufferSizePerRead clientRW = 0 then 1280
              else MinPayloadBufferSizePerRead clientRW) +
             RearHeadroom clientRW)"
  unfolding initialPayloadWait_def Let_def initialPayloadWaitBufferSize_def
  by (auto split: option.splits prod.splits if_splits
           simp: resetReadDeadline_events dest: makeslice_length)

lemma initialPayloadWait_ReadZeroCopyCall:
  "ReadZeroCopyCall b st ln \<in> set (fst (initialPayloadWait clientConn clientRW)) \<Longrightarrow>
   length b = unat (FrontHeadroom clientRW +
                    (if MinPayloadBufferSizePerRead clientRW = 0 then 1280
                     else MinPayloadBufferSizePerRead clientRW) +
                    RearHeadroom clientRW)
   \<and> st = FrontHeadroom clientRW
   \<and> ln = (if MinPayloadBufferSizePerRead clientRW = 0 then 1280
           else MinPayloadBufferSizePerRead clientRW)"
  unfolding initialPayloadWait_def Let_def initialPayloadWaitBufferSize_def
  by (auto split: option.splits prod.splits if_splits
           simp: resetReadDeadline_events dest: makeslice_length)

lemma handleConn_wait_events:
  assumes "Accept s clientConn = Inr (clientRW, target, payload)"
    and "e \<in> set (handleConn s clientConn)"
    and "(\<exists>n. e = Alloc n) \<or> (\<exists>b st ln. e = ReadZeroCopyCall b st ln)"
  shows "e \<in> set (fst (initialPayloadWait clientConn clientRW))"
proof (cases "ParseAddr clientConn")
  case (Some a)
  with assms show ?thesis by (auto simp: handleConn_def)
next
  case None
  note pa = this
  show ?thesis
  proof (cases "ToAddrPort clientConn")
    case (Some a)
    with pa assms show ?thesis by (auto simp: handleConn_def)
  next
    case None
    note ap = this
    show ?thesis
    proof (cases "GetTCPClient s target")
      case (Inl a)
      with pa ap assms show ?thesis by (auto simp: handleConn_def)
    next
      case (Inr c)
      show ?thesis
      proof (cases "waitForInitialPayload s \<and> NativeInitialPayload c")
        case False
        with pa ap Inr assms show ?thesis
          by (auto simp: handleConn_def split: option.splits)
      next
        case True
        obtain evs po where "initialPayloadWait clientConn clientRW = (evs, po)"
          by (cases "initialPayloadWait clientConn clientRW")
        with True pa ap Inr assms show ?thesis
          by (cases po) (auto simp: handleConn_def split: option.splits)
      qed
    qed
  qed
qed

text \<open>
  Claim C1. The wait for the initial payload should be made only when it is enabled, the
  client takes an initial payload natively and \<open>Accept\<close> gave no payload, and a payload
  given by \<open>Accept\<close> should reach \<open>Dial\<close> unchanged. Evaluated on a relay that waits, a
  client with native initial payload and a server framing whose \<open>Accept\<close> gives the three
  bytes \<open>GET\<close>, while the client sends two more bytes: the handler makes a buffer of 1280
  bytes, sets the deadline, reads, and dials with the two bytes read; the three bytes
  of \<open>Accept\<close> are gone.
\<close>

theorem handleConn_waits_with_accept_payload:
  "Accept (exampleTCPRelay (exampleReadWriter 0 [104, 105] None) [71, 69, 84]) exampleTCPConn
     = Inr (exampleReadWriter 0 [104, 105] None, ''example.com:443'', [71, 69, 84])
   \<and> handleConn (exampleTCPRelay (exampleReadWriter 0 [104, 105] None) [71, 69, 84]) exampleTCPConn
     = [Alloc 1280, SetReadDeadlineCall (Some 250), ReadZeroCopyCall (replicate 1280 0) 0 1280,
        SetReadDeadlineCall None, DialCall ''example.com:443'' [104, 105],
        TwoWayRelayCall, CloseRemoteConn, CloseClientConn]"
  using handleConn_example_payload by (simp add: exampleTCPRelay_def)

text \<open>
  Claim C3, as stated: the buffer of the wait has the size of the two headrooms plus the
  larger of \<open>MinPayloadBufferSizePerRead\<close> and 1280. For a reader without headroom whose
  minimum is 100, which is positive and below 1280, the handler makes a buffer of 100
  bytes and reads with a payload buffer size of 100, not of 1280.
\<close>

theorem payloadBufSize_not_max_counterexample:
  "0 <s (100 :: go_int) \<and> (100 :: go_int) <s 1280
   \<and> spec_payloadBufSize 100 = 1280
   \<and> Alloc 100 \<in> set (handleConn
        (exampleTCPRelay (exampleReadWriter 100 [] (Some ErrDeadlineExceeded)) []) exampleTCPConn)
   \<and> ReadZeroCopyCall (replicate 100 0) 0 100 \<in> set (handleConn
        (exampleTCPRelay (exampleReadWriter 100 [] (Some ErrDeadlineExceeded)) []) exampleTCPConn)
   \<and> Alloc (unat (FrontHeadroom (exampleReadWriter 100 [] (Some ErrDeadlineExceeded))
                  + spec_payloadBufSize
                      (MinPayloadBufferSizePerRead (exampleReadWriter 100 [] (Some ErrDeadlineExceeded)))
                  + RearHeadroom (exampleReadWriter 100 [] (Some ErrDeadlineExceeded))))
       \<notin> set (handleConn
        (exampleTCPRelay (exampleReadWriter 100 [] (Some ErrDeadlineExceeded)) []) exampleTCPConn)"
proof -
  have spec: "spec_payloadBufSize 100 = 1280"
    by (simp add: spec_payloadBufSize_def word_sless_alt)
  have size: "unat (FrontHeadroom (exampleReadWriter 100 [] (Some ErrDeadlineExceeded))
                  + spec_payloadBufSize
                      (MinPayloadBufferSizePerRead (exampleReadWriter 100 [] (Some ErrDeadlineExceeded)))
                  + RearHeadroom (exampleReadWriter 100 [] (Some ErrDeadlineExceeded))) = 1280"
    by (simp add: exampleReadWriter_def spec)
  have order: "0 <s (100 :: go_int)" "(100 :: go_int) <s 1280"
    by (simp_all add: word_sless_alt)
  show ?thesis
    unfolding size handleConn_example_100 using spec order by simp
qed

text \<open>
  Claim C3, amended: when the handler waits for the initial payload, the buffer it makes
  has the size \<open>frontHeadroom + payloadBufSize + rearHeadroom\<close> (in Go's \<open>int\<close>), where
  \<open>payloadBufSize\<close> is \<open>MinPayloadBufferSizePerRead\<close> when that is not zero and 1280 when
  it is zero; the one read is made into that buffer at offset \<open>frontHeadroom\<close> with
  length \<open>payloadBufSize\<close>.
\<close>

theorem initial_payload_buffer_size:
  assumes "Accept s clientConn = Inr (clientRW, target, payload)"
  shows "(Alloc n \<in> set (handleConn s clientConn) \<longrightarrow>
            n = unat (FrontHeadroom clientRW +
                      (if MinPayloadBufferSizePerRead clientRW = 0 then 1280
                       else MinPayloadBufferSizePerRead clientRW) +
                      RearHeadroom clientRW))
       \<and> (ReadZeroCopyCall b st ln \<in> set (handleConn s clientConn) \<longrightarrow>
            length b = unat (FrontHeadroom clientRW +
                             (if MinPayloadBufferSizePerRead clientRW = 0 then 1280
                              else MinPayloadBufferSizePerRead clientRW) +
                             RearHeadroom clientRW)
            \<and> st = FrontHeadroom clientRW
            \<and> ln = (if MinPayloadBufferSizePerRead clientRW = 0 then 1280
                    else MinPayloadBufferSizePerRead clientRW))"
  using handleConn_wait_events [OF assms, of "Alloc n"]
        handleConn_wait_events [OF assms, of "ReadZeroCopyCall b st ln"]
        initialPayloadWait_Alloc [of n clientConn clientRW]
        initialPayloadWait_ReadZeroCopyCall [of b st ln clientConn clientRW]
  by blast

theorem initial_payload_buffer_size_witness:
  "Accept (exampleTCPRelay (exampleReadWriter 0 [104, 105] None) [71, 69, 84]) exampleTCPConn
     = Inr (exampleReadWriter 0 [104, 105] None, ''example.com:443'', [71, 69, 84])
   \<and> Alloc 1280 \<in> set (handleConn
        (exampleTCPRelay (exampleReadWriter 0 [104, 105] None) [71, 69, 84]) exampleTCPConn)
   \<and> ReadZeroCopyCall (replicate 1280 0) 0 1280 \<in> set (handleConn
        (exampleTCPRelay (exampleReadWriter 0 [104, 105] None) [71, 69, 84]) exampleTCPConn)
   \<and> (1280 :: nat) = unat (FrontHeadroom (exampleReadWriter 0 [104, 105] None) +
        (if MinPayloadBufferSizePerRead (exampleReadWriter 0 [104, 105] None) = 0 then 1280
         else MinPayloadBufferSizePerRead (exampleReadWriter 0 [104, 105] None)) +
        RearHeadroom (exampleReadWriter 0 [104, 105] None))"
proof -
  have a: "Accept (exampleTCPRelay (exampleReadWriter 0 [104, 105] None) [71, 69, 84]) exampleTCPConn
     = Inr (exampleReadWriter 0 [104, 105] None, ''example.com:443'', [71, 69, 84])"
    by (simp add: exampleTCPRelay_def)
  have size: "unat (FrontHeadroom (exampleReadWriter 0 [104, 105] None) +
        (if MinPayloadBufferSizePerRead (exampleReadWriter 0 [104, 105] None) = 0 then 1280
         else MinPayloadBufferSizePerRead (exampleReadWriter 0 [104, 105] None)) +
        RearHeadroom (exampleReadWriter 0 [104, 105] None)) = 1280"
    by (simp add: exampleReadWriter_def)
  show ?thesis
    using initial_payload_buffer_size [OF a, of 1280 "replicate 1280 0" 0 1280] a
    unfolding size handleConn_example_payload by simp
qed

section \<open>Properties of the UDP session relay\<close>

lemma newSession_channel:
  "newSession s io a = Some (entry, t, ps, pl) \<Longrightarrow> natConnSendCh entry = []"
  unfolding newSession_def Let_def
  by (auto split: option.splits sum.splits prod.splits)

lemma existingSession_channel:
  "existingSession s io a e = Some (entry, t, ps, pl) \<Longrightarrow> natConnSendCh entry = natConnSendCh e"
  unfolding existingSession_def Let_def
  by (auto split: option.splits sum.splits prod.splits)

lemma lookupSession_channel:
  assumes "lookupSession s io a k = Some (entry, t, ps, pl)"
  shows "map bufp (natConnSendCh entry) = queued s k"
  using assms
  by (auto simp: lookupSession_def queued_def split: option.splits
           dest: newSession_channel existingSession_channel)

lemma recvIteration_Break:
  "fst (recvIteration io s) = Break \<longleftrightarrow> ReadMsgUDPAddrPort io = Inl ErrClosed"
  unfolding recvIteration_def Let_def
  by (auto split: prod.splits sum.splits option.splits if_splits)

lemma recvIteration_buffer:
  assumes g: "Get (packetBufPool s) = (b, pool1)" and r: "recvIteration io s = (c, s')"
  shows "(packetBufPool s' = Put b pool1 \<and> (\<forall>k. queued s' k = queued s k))
       \<or> (packetBufPool s' = pool1 \<and>
           (\<exists>k. queued s' k = queued s k @ [b] \<and> length (queued s k) < sendChannelCapacity s
                \<and> (\<forall>k'. k' \<noteq> k \<longrightarrow> queued s' k' = queued s k')))"
proof (cases "ReadMsgUDPAddrPort io")
  case (Inl e)
  with g r show ?thesis
    by (auto simp: recvIteration_def Let_def queued_def split: if_splits)
next
  case (Inr rd)
  note rd = this
  obtain n oobn flags cap where rd': "rd = (n, oobn, flags, cap)"
    by (cases rd) auto
  show ?thesis
  proof (cases "ParseFlagsForError io")
    case (Some e)
    with g r rd rd' show ?thesis
      by (auto simp: recvIteration_def Let_def queued_def)
  next
    case None
    note pf = this
    show ?thesis
    proof (cases "SessionInfo io")
      case (Inl e)
      with g r rd rd' pf show ?thesis
        by (auto simp: recvIteration_def Let_def queued_def)
    next
      case (Inr k)
      note si = this
      show ?thesis
      proof (cases "lookupSession s io (Tov4Mappedv6 s cap) k")
        case None
        with g r rd rd' pf si show ?thesis
          by (auto simp: recvIteration_def Let_def queued_def)
      next
        case (Some res)
        obtain entry t ps pl where res: "res = (entry, t, ps, pl)"
          by (cases res) auto
        have ch: "map bufp (natConnSendCh entry) = queued s k"
          using lookupSession_channel Some res by blast
        show ?thesis
        proof (cases "length (natConnSendCh entry) < sendChannelCapacity s")
          case True
          with g r rd rd' pf si Some res
          have s': "s' = s\<lparr>packetBufPool := pool1, sessionTable := (sessionTable s)(k \<mapsto>
                      entry\<lparr>clientOobCache := fst (UpdateOobCache io (clientOobCache entry)),
                            natConnSendCh := natConnSendCh entry @
                              [\<lparr>bufp = b, start = ps, length_qp = pl, targetAddr = t\<rparr>]\<rparr>)\<rparr>"
            by (auto simp: recvIteration_def Let_def)
          have "packetBufPool s' = pool1"
            by (simp add: s')
          moreover have "queued s' k = queued s k @ [b]"
            using ch by (simp add: s' queued_def)
          moreover have "length (queued s k) < sendChannelCapacity s"
            using True ch [symmetric] by simp
          moreover have "\<forall>k'. k' \<noteq> k \<longrightarrow> queued s' k' = queued s k'"
            by (simp add: s' queued_def)
          ultimately show ?thesis by blast
        next
          case False
          with g r rd rd' pf si Some res
          have s': "s' = s\<lparr>packetBufPool := Put b pool1, sessionTable := (sessionTable s)(k \<mapsto>
                      entry\<lparr>clientOobCache := fst (UpdateOobCache io (clientOobCache entry))\<rparr>)\<rparr>"
            by (auto simp: recvIteration_def Let_def)
          have "packetBufPool s' = Put b pool1"
            by (simp add: s')
          moreover have "queued s' k' = queued s k'" for k'
            using ch by (simp add: s' queued_def)
          ultimately show ?thesis by blast
        qed
      qed
    qed
  qed
qed

lemma relayQueuedPacket_pool:
  "snd (snd (relayQueuedPacket s entry qp io locals pool)) = Put (bufp qp) pool"
  unfolding relayQueuedPacket_def writeAndPut_def
  by (auto split: sum.splits option.splits prod.splits if_splits)

lemma relayServerConnToNatConnLoop_pool:
  "snd (relayServerConnToNatConnLoop s entry received locals pool)
     = pool\<lparr>pooled := rev (map (bufp \<circ> fst) received) @ pooled pool\<rparr>"
proof (induction received arbitrary: locals pool)
  case Nil
  then show ?case by simp
next
  case (Cons a received)
  obtain qp io where a: "a = (qp, io)"
    by (cases a)
  obtain e1 l1 p1 where 1: "relayQueuedPacket s entry qp io locals pool = (e1, l1, p1)"
    by (cases "relayQueuedPacket s entry qp io locals pool") auto
  have p1: "p1 = Put (bufp qp) pool"
    using relayQueuedPacket_pool [of s entry qp io locals pool] 1 by simp
  have "snd (relayServerConnToNatConnLoop s entry (a # received) locals pool)
          = snd (relayServerConnToNatConnLoop s entry received l1 p1)"
    by (simp add: a 1 split: prod.splits)
  also have "\<dots> = p1\<lparr>pooled := rev (map (bufp \<circ> fst) received) @ pooled p1\<rparr>"
    by (rule Cons.IH)
  finally show ?case
    by (simp add: p1 a Put_def)
qed

text \<open>
  Claim C5. A turn of the receive loop takes buffer \<open>b\<close> from the pool and ends in one of
  two ways: either \<open>b\<close> is back in the pool, put there once, and no send channel has
  changed (the packet was dropped); or the pool is as it was after the take and \<open>b\<close> is
  the newest packet in the send channel of one session, which had room, all other
  channels unchanged. In particular a full channel means the first way, and the turn
  ends in either case: the loop is left only for a closed server socket. The upstream
  worker puts the buffer of a packet it received from the channel into the pool once,
  whatever the results of packing, resolving and writing, so that after it has worked
  through the packets received, the pool has gained exactly their buffers.
\<close>

theorem packet_buffer_returned_once:
  "(Get (packetBufPool s) = (b, pool1) \<and> recvIteration io s = (c, s') \<longrightarrow>
      ((packetBufPool s' = Put b pool1 \<and> (\<forall>k. queued s' k = queued s k))
       \<or> (packetBufPool s' = pool1 \<and>
           (\<exists>k. queued s' k = queued s k @ [b] \<and> length (queued s k) < sendChannelCapacity s
                \<and> (\<forall>k'. k' \<noteq> k \<longrightarrow> queued s' k' = queued s k'))))
      \<and> (c = Break \<longleftrightarrow> ReadMsgUDPAddrPort io = Inl ErrClosed))
   \<and> snd (snd (relayQueuedPacket s entry qp uio locals pool)) = Put (bufp qp) pool
   \<and> snd (relayServerConnToNatConnGeneric s entry received pool)
       = pool\<lparr>pooled := rev (map (bufp \<circ> fst) received) @ pooled pool\<rparr>"
  using recvIteration_buffer [of s b pool1 io c s'] recvIteration_Break [of io s]
    relayQueuedPacket_pool [of s entry qp uio locals pool]
    relayServerConnToNatConnLoop_pool [of s entry received _ pool]
  by (auto simp: relayServerConnToNatConnGeneric_def)

lemma recvIteration_example:
  "recvIteration exampleRecvIO exampleUDPRelay =
     (Continue, exampleUDPRelay\<lparr>packetBufPool := \<lparr>pooled = [1], created = 2\<rparr>\<rparr>)"
  by (simp add: recvIteration_def exampleRecvIO_def exampleUDPRelay_def Get_def Put_def
      lookupSession_def existingSession_def exampleSession_def Let_def)

theorem packet_buffer_returned_once_witness:
  "Get (packetBufPool exampleUDPRelay) = (1, \<lparr>pooled = [], created = 2\<rparr>)
   \<and> recvIteration exampleRecvIO exampleUDPRelay
       = (Continue, exampleUDPRelay\<lparr>packetBufPool := \<lparr>pooled = [1], created = 2\<rparr>\<rparr>)
   \<and> queued exampleUDPRelay 43981 = [0]
   \<and> \<not> length (queued exampleUDPRelay 43981) < sendChannelCapacity exampleUDPRelay
   \<and> Put 1 \<lparr>pooled = [], created = 2\<rparr> = \<lparr>pooled = [1], created = 2\<rparr>
   \<and> snd (relayServerConnToNatConnGeneric exampleUDPRelay exampleSession
            [(exampleQueuedPacket, exampleUpIO)] \<lparr>pooled = [1], created = 2\<rparr>)
       = \<lparr>pooled = [0, 1], created = 2\<rparr>"
proof -
  have g: "Get (packetBufPool exampleUDPRelay) = (1, \<lparr>pooled = [], created = 2\<rparr>)"
    by (simp add: Get_def exampleUDPRelay_def)
  have q: "queued exampleUDPRelay 43981 = [0]"
    by (simp add: queued_def exampleUDPRelay_def exampleSession_def exampleQueuedPacket_def)
  have cap: "sendChannelCapacity exampleUDPRelay = 1"
    by (simp add: exampleUDPRelay_def)
  show ?thesis
    using packet_buffer_returned_once
            [of exampleUDPRelay 1 "\<lparr>pooled = [], created = 2\<rparr>" exampleRecvIO Continue
                "exampleUDPRelay\<lparr>packetBufPool := \<lparr>pooled = [1], created = 2\<rparr>\<rparr>"
                exampleSession exampleQueuedPacket exampleUpIO
                "\<lparr>cachedTargetAddr = [], cachedTargetAddrPort = AddrPort False False []\<rparr>"
                "\<lparr>pooled = [1], created = 2\<rparr>" "[(exampleQueuedPacket, exampleUpIO)]"]
          g q cap recvIteration_example
    by (simp add: Put_def exampleQueuedPacket_def)
qed

lemma sint_sub_nonneg:
  fixes a b :: go_int
  assumes "0 \<le>s a" "0 \<le>s b"
  shows "sint (a - b) = sint a - sint b"
proof -
  have a: "0 \<le> sint a" "0 \<le> sint b"
    using assms by (simp_all add: word_sle_eq)
  have b: "sint a < 2 ^ 63" "sint b < 2 ^ 63"
    using sint_lt [of a] sint_lt [of b] by simp_all
  have "sint (a - b) = signed_take_bit 63 (sint a - sint b)"
    by (simp add: sint_word_ariths)
  also have "\<dots> = sint a - sint b"
    by (rule signed_take_bit_int_eq_self) (use a b in simp_all)
  finally show ?thesis .
qed

lemma sint_add3:
  fixes a b c :: go_int
  assumes "0 \<le> sint a + sint b + sint c" "sint a + sint b + sint c < 2 ^ 63"
  shows "sint (a + b + c) = sint a + sint b + sint c"
proof -
  have "a + b + c = word_of_int (sint a + sint b + sint c)"
    by simp
  then have "sint (a + b + c) = signed_take_bit 63 (sint a + sint b + sint c)"
    by (simp only: sint_sbintrunc') simp
  also have "\<dots> = sint a + sint b + sint c"
    by (rule signed_take_bit_int_eq_self) (use assms in simp_all)
  finally show ?thesis .
qed

lemma unat_nonneg_sint:
  fixes a :: go_int
  assumes "0 \<le> sint a"
  shows "unat a = nat (sint a)"
proof -
  have "sint a < 2 ^ 64"
    using sint_lt [of a] by simp
  then have "take_bit 64 (sint a) = sint a"
    using assms by (simp add: take_bit_int_eq_self)
  then have "uint a = sint a"
    by (simp add: uint_sint)
  then show ?thesis
    by (simp flip: nat_uint_eq)
qed

lemma headroom_difference:
  fixes sv cl :: go_int
  assumes "0 \<le>s sv" "0 \<le>s cl"
  shows "sint (if cl <s sv then sv - cl else 0) = max (sint sv - sint cl) 0"
  using assms by (auto simp: sint_sub_nonneg word_sless_alt max_def)

lemma loop_makes_no_buffer:
  "filter isMakeBuf (relayNatConnToServerConnLoop s entry packetBuf frontHeadroom locals ios) = []"
proof (induction ios arbitrary: locals)
  case Nil
  show ?case by simp
next
  case (Cons io rest)
  note IH = Cons.IH
  show ?case
  proof (cases "natReadMsgUDPAddrPort io")
    case (Inl err)
    then show ?thesis using IH by simp
  next
    case (Inr rd)
    note rd = this
    obtain n flags src where rd': "rd = (n, flags, src)"
      by (cases rd) auto
    show ?thesis
    proof (cases "natParseFlagsForError io")
      case (Some err)
      then show ?thesis using rd rd' IH by simp
    next
      case None
      note pf = this
      show ?thesis
      proof (cases "natUnpackInPlace io")
        case (Inl err)
        then show ?thesis using rd rd' pf IH by simp
      next
        case (Inr up)
        note up = this
        obtain t0 has ps pl where up': "up = (t0, has, ps, pl)"
          by (cases up) auto
        obtain t' locals' where tl:
          "(if has then (t0, locals)
            else if Some src = cachedPacketFromAddrPort locals
                 then (cachedTargetAddr_d locals, locals)
                 else (AddrFromAddrPort s src,
                       locals\<lparr>cachedPacketFromAddrPort := Some src,
                               cachedTargetAddr_d := AddrFromAddrPort s src\<rparr>)) = (t', locals')"
          by (metis surj_pair)
        show ?thesis
        proof (cases "PackInPlace (serverConnPacker entry) t' ps pl")
          case (Inl err)
          then show ?thesis using rd rd' pf up up' tl IH by simp
        next
          case (Inr pk)
          note pk = this
          obtain pstart plen where pk': "pk = (pstart, plen)"
            by (cases pk) auto
          show ?thesis
          proof (cases "slice packetBuf pstart (pstart + plen)")
            case None
            then show ?thesis using rd rd' pf up up' tl pk pk' by simp
          next
            case (Some packet)
            then show ?thesis using rd rd' pf up up' tl pk pk' IH
              by (cases "WriteMsgUDPAddrPort io") simp_all
          qed
        qed
      qed
    qed
  qed
qed

lemma makeslice_Some:
  "0 \<le> sint n \<Longrightarrow> makeslice n = Some (replicate (nat (sint n)) 0)"
  by (simp add: makeslice_def word_sless_alt unat_nonneg_sint)

text \<open>
  Claim C9. With packers whose headrooms are not negative, and the sum below within
  the range of a valid length, the downstream worker makes exactly one buffer, whatever
  its loop then meets, and its length is the front difference plus
  \<open>maxClientPacketSize\<close> plus the rear difference, where each difference is the
  headroom of the server packer minus that of the outbound packer, or zero when that is
  negative.
\<close>

theorem downstream_scratch_buffer:
  assumes "0 \<le>s FrontHeadroom (serverConnPacker entry)"
    and "0 \<le>s FrontHeadroom (natConnPacker entry)"
    and "0 \<le>s RearHeadroom (serverConnPacker entry)"
    and "0 \<le>s RearHeadroom (natConnPacker entry)"
    and "0 \<le> max (sint (FrontHeadroom (serverConnPacker entry))
                  - sint (FrontHeadroom (natConnPacker entry))) 0
             + sint (maxClientPacketSize entry)
             + max (sint (RearHeadroom (serverConnPacker entry))
                    - sint (RearHeadroom (natConnPacker entry))) 0"
    and "max (sint (FrontHeadroom (serverConnPacker entry))
              - sint (FrontHeadroom (natConnPacker entry))) 0
         + sint (maxClientPacketSize entry)
         + max (sint (RearHeadroom (serverConnPacker entry))
                - sint (RearHeadroom (natConnPacker entry))) 0 < 2 ^ 63"
  shows "filter isMakeBuf (relayNatConnToServerConnGeneric s entry ios)
         = [MakeBuf (nat (max (sint (FrontHeadroom (serverConnPacker entry))
                               - sint (FrontHeadroom (natConnPacker entry))) 0
                          + sint (maxClientPacketSize entry)
                          + max (sint (RearHeadroom (serverConnPacker entry))
                                 - sint (RearHeadroom (natConnPacker entry))) 0))]"
proof -
  define f where "f = (if FrontHeadroom (natConnPacker entry) <s FrontHeadroom (serverConnPacker entry)
     then FrontHeadroom (serverConnPacker entry) - FrontHeadroom (natConnPacker entry) else 0)"
  define r where "r = (if RearHeadroom (natConnPacker entry) <s RearHeadroom (serverConnPacker entry)
     then RearHeadroom (serverConnPacker entry) - RearHeadroom (natConnPacker entry) else 0)"
  define F where "F = max (sint (FrontHeadroom (serverConnPacker entry))
                           - sint (FrontHeadroom (natConnPacker entry))) 0"
  define R where "R = max (sint (RearHeadroom (serverConnPacker entry))
                           - sint (RearHeadroom (natConnPacker entry))) 0"
  have f: "sint f = F"
    unfolding f_def F_def using assms(1,2) by (rule headroom_difference)
  have r: "sint r = R"
    unfolding r_def R_def using assms(3,4) by (rule headroom_difference)
  have range: "0 \<le> F + sint (maxClientPacketSize entry) + R"
    "F + sint (maxClientPacketSize entry) + R < 2 ^ 63"
    using assms(5,6) by (simp_all add: F_def R_def)
  have sum: "sint (f + maxClientPacketSize entry + r) = F + sint (maxClientPacketSize entry) + R"
    using sint_add3 [of f "maxClientPacketSize entry" r] range f r by simp
  have mk: "makeslice (f + maxClientPacketSize entry + r)
            = Some (replicate (nat (F + sint (maxClientPacketSize entry) + R)) 0)"
    using makeslice_Some [of "f + maxClientPacketSize entry + r"] sum range(1) by simp
  have "filter isMakeBuf (relayNatConnToServerConnGeneric s entry ios)
          = [MakeBuf (nat (F + sint (maxClientPacketSize entry) + R))]"
    unfolding relayNatConnToServerConnGeneric_def Let_def
    unfolding f_def [symmetric] r_def [symmetric] mk
    by (simp add: loop_makes_no_buffer split: option.splits)
  then show ?thesis
    by (simp add: F_def R_def)
qed

theorem downstream_scratch_buffer_witness:
  "0 \<le>s FrontHeadroom (serverConnPacker exampleSession)
   \<and> 0 \<le>s FrontHeadroom (natConnPacker exampleSession)
   \<and> 0 \<le>s RearHeadroom (serverConnPacker exampleSession)
   \<and> 0 \<le>s RearHeadroom (natConnPacker exampleSession)
   \<and> max (sint (FrontHeadroom (serverConnPacker exampleSession))
           - sint (FrontHeadroom (natConnPacker exampleSession))) 0
      + sint (maxClientPacketSize exampleSession)
      + max (sint (RearHeadroom (serverConnPacker exampleSession))
             - sint (RearHeadroom (natConnPacker exampleSession))) 0 = 1512
   \<and> filter isMakeBuf (relayNatConnToServerConnGeneric exampleUDPRelay exampleSession
        [\<lparr>natReadMsgUDPAddrPort = Inl ErrDeadlineExceeded, natParseFlagsForError = None,
          natUnpackInPlace = Inl (ErrOther []), WriteMsgUDPAddrPort = None\<rparr>])
      = [MakeBuf 1512]"
proof -
  have h: "0 \<le>s FrontHeadroom (serverConnPacker exampleSession)"
    "0 \<le>s FrontHeadroom (natConnPacker exampleSession)"
    "0 \<le>s RearHeadroom (serverConnPacker exampleSession)"
    "0 \<le>s RearHeadroom (natConnPacker exampleSession)"
    by (simp_all add: exampleSession_def examplePacker_def word_sle_eq)
  have v: "max (sint (FrontHeadroom (serverConnPacker exampleSession))
           - sint (FrontHeadroom (natConnPacker exampleSession))) 0
      + sint (maxClientPacketSize exampleSession)
      + max (sint (RearHeadroom (serverConnPacker exampleSession))
             - sint (RearHeadroom (natConnPacker exampleSession))) 0 = 1512"
    by (simp add: exampleSession_def examplePacker_def)
  have r1: "0 \<le> max (sint (FrontHeadroom (serverConnPacker exampleSession))
           - sint (FrontHeadroom (natConnPacker exampleSession))) 0
      + sint (maxClientPacketSize exampleSession)
      + max (sint (RearHeadroom (serverConnPacker exampleSession))
             - sint (RearHeadroom (natConnPacker exampleSession))) 0"
    using v by simp
  have r2: "max (sint (FrontHeadroom (serverConnPacker exampleSession))
           - sint (FrontHeadroom (natConnPacker exampleSession))) 0
      + sint (maxClientPacketSize exampleSession)
      + max (sint (RearHeadroom (serverConnPacker exampleSession))
             - sint (RearHeadroom (natConnPacker exampleSession))) 0 < 2 ^ 63"
    using v by simp
  show ?thesis
    using downstream_scratch_buffer [OF h r1 r2, of exampleUDPRelay
        "[\<lparr>natReadMsgUDPAddrPort = Inl ErrDeadlineExceeded, natParseFlagsForError = None,
          natUnpackInPlace = Inl (ErrOther []), WriteMsgUDPAddrPort = None\<rparr>]"] h v
    by simp
qed

end
